theory Spec2Isabelle
  imports Main "HOL-Library.Word" "HOL-Library.AList"
begin

unbundle bit_operations_syntax

section \<open>Bytes and integer codecs\<close>

type_synonym byte = "8 word"
type_synonym bytes = "byte list"
type_synonym Hash = bytes
type_synonym Address = bytes

text \<open>
  Modelled from the spec: the package util/byteutils (FromUint32, FromUint64, FromInt64,
  Uint32, Int64) is not among the sources. The spec fixes "fixed-width integer encodings
  (big-endian for u32/u64/i64)". An int64 is the 64-bit word of its two's complement, so
  FromInt64 writes the same eight bytes as FromUint64. The decoders read the leading bytes
  and fail on a slice that is too short (Go's index-out-of-range panic).
\<close>

definition FromUint32 :: "32 word \<Rightarrow> bytes" where
  "FromUint32 w = [ucast (drop_bit 24 w), ucast (drop_bit 16 w), ucast (drop_bit 8 w), ucast w]"

definition FromUint64 :: "64 word \<Rightarrow> bytes" where
  "FromUint64 w =
     [ucast (drop_bit 56 w), ucast (drop_bit 48 w), ucast (drop_bit 40 w), ucast (drop_bit 32 w),
      ucast (drop_bit 24 w), ucast (drop_bit 16 w), ucast (drop_bit 8 w), ucast w]"

definition FromInt64 :: "64 word \<Rightarrow> bytes" where
  "FromInt64 v = FromUint64 v"

definition be32 :: "byte \<Rightarrow> byte \<Rightarrow> byte \<Rightarrow> byte \<Rightarrow> 32 word" where
  "be32 a b c d = push_bit 24 (ucast a) OR push_bit 16 (ucast b) OR push_bit 8 (ucast c) OR ucast d"

fun Uint32 :: "bytes \<Rightarrow> 32 word option" where
  "Uint32 (a # b # c # d # _) = Some (be32 a b c d)"
| "Uint32 _ = None"

definition be64 :: "bytes \<Rightarrow> 64 word" where
  "be64 bs = foldl (\<lambda>acc b. push_bit 8 acc OR ucast b) 0 bs"

definition Int64 :: "bytes \<Rightarrow> 64 word option" where
  "Int64 bs = (if length bs < 8 then None else Some (be64 (take 8 bs)))"

text \<open>The value of a byte string read most significant byte first.\<close>

definition be_value :: "bytes \<Rightarrow> nat" where
  "be_value bs = foldl (\<lambda>acc b. acc * 256 + unat b) 0 bs"

text \<open>A Go string is its bytes: []byte(s) and string(b).\<close>

definition bytes_of_string :: "string \<Rightarrow> bytes" where
  "bytes_of_string s = map of_char s"

definition string_of_bytes :: "bytes \<Rightarrow> string" where
  "string_of_bytes bs = map (\<lambda>b. char_of (unat b)) bs"

text \<open>Go's integer division truncates towards zero; its operands here are int64.\<close>

definition go_div64 :: "64 word \<Rightarrow> 64 word \<Rightarrow> 64 word" where
  "go_div64 a b = word_of_int (sgn (sint a) * sgn (sint b) * (\<bar>sint a\<bar> div \<bar>sint b\<bar>))"

section \<open>core: data model of block.go\<close>

datatype core_error =
    ErrDoubleSealBlock
  | ErrLinkToWrongParentBlock
  | ErrCloneAccountState
  | ErrCloneTxsState
  | ErrCloneEventsState
  | ErrGenerateNextDynastyContext
  | ErrLoadNextDynastyContext
  | ErrDuplicatedTransaction
  | ErrSmallTransactionNonce
  | ErrLargeTransactionNonce
  | ErrInvalidBlockStateRoot
  | ErrInvalidBlockTxsRoot
  | ErrInvalidBlockEventsRoot
  | ErrInvalidBlockDposContextRoot
  | ErrKeyNotFound
  | ErrExternal string

text \<open>
  How a call ends: it returns, with Go's error value (None is nil), or it panics. A panic
  is not an error the caller can test: it leaves the function at once, and the callers
  after it, running none of their remaining statements; the state is left as it was at
  that moment.
\<close>

datatype status = Returned "core_error option" | Panicked string

record DposContextPb =
  DynastyRoot :: Hash
  NextDynastyRoot :: Hash
  DelegateRoot :: Hash
  VoteRoot :: Hash
  CandidateRoot :: Hash
  MintCntRoot :: Hash

text \<open>
  BlockHeader. header.dposContext is a pointer: NewBlock allocates it, Seal assigns it, and
  FromProto copies the pointer of the wire message, which is nil when the message has no
  dpos_context; None is the nil pointer. header.coinbase is never nil on a block that
  exists: FromProto allocates it, and NewBlock dereferences it (rewardCoinbase) before it
  returns the block; it is modelled by the address it points to. uint64, int64 and uint32
  are words of that width.
\<close>

record BlockHeader =
  hash :: Hash
  parentHash :: Hash
  stateRoot :: Hash
  txsRoot :: Hash
  eventsRoot :: Hash
  dposContextPb :: "DposContextPb option"
  coinbase :: Address
  nonce :: "64 word"
  timestamp :: "64 word"
  chainID :: "32 word"
  alg :: byte
  sign :: bytes

text \<open>
  The wire message corepb.BlockHeader and BlockHeader.FromProto. The type assertion of
  FromProto holds for every message of this type, so it returns no error here.
\<close>

record pb_BlockHeader =
  pb_Hash :: bytes
  pb_ParentHash :: bytes
  pb_StateRoot :: bytes
  pb_TxsRoot :: bytes
  pb_EventsRoot :: bytes
  pb_DposContext :: "DposContextPb option"
  pb_Nonce :: "64 word"
  pb_Coinbase :: bytes
  pb_Timestamp :: "64 word"
  pb_ChainId :: "32 word"
  pb_Alg :: "32 word"
  pb_Sign :: bytes

definition BlockHeader_FromProto :: "pb_BlockHeader \<Rightarrow> BlockHeader" where
  "BlockHeader_FromProto msg =
     \<lparr>hash = pb_Hash msg,
      parentHash = pb_ParentHash msg,
      stateRoot = pb_StateRoot msg,
      txsRoot = pb_TxsRoot msg,
      eventsRoot = pb_EventsRoot msg,
      dposContextPb = pb_DposContext msg,
      coinbase = pb_Coinbase msg,
      nonce = pb_Nonce msg,
      timestamp = pb_Timestamp msg,
      chainID = pb_ChainId msg,
      alg = ucast (pb_Alg msg),
      sign = pb_Sign msg\<rparr>"

datatype TxPayloadType =
    TxPayloadBinaryType
  | TxPayloadDeployType
  | TxPayloadCallType
  | TxPayloadDelegateType
  | TxPayloadCandidateType
  | TxPayloadOther string

text \<open>The fields of Transaction that block.go reads: tx.hash, tx.from.address, tx.nonce, tx.Type().\<close>

record Transaction =
  txHash :: Hash
  txFrom :: Address
  txNonce :: "64 word"
  txType :: TxPayloadType

record Event =
  Topic :: string
  Data :: string

record Account =
  accBalance :: nat
  accNonce :: "64 word"

text \<open>
  Modelled from the spec: common/trie (BatchTrie) and core/state (AccountState) are not among
  the sources. Spec 4.1: the adapter exposes get, put, prove, iterator(prefix), root_hash and
  the batch triplet; "between begin_batch and commit, mutations are staged; rollback discards
  them. Nested begin_batch must be rejected. root_hash during a batch reflects the staged
  state." A trie is the key/value content it stores, in insertion order; an overlay is the
  current (possibly staged) content together with the content saved by the open batch.
\<close>

type_synonym trie = "(bytes \<times> bytes) list"
type_synonym accounts = "(Address \<times> Account) list"

record 'c batch =
  cur :: 'c
  saved :: "'c option"

definition BeginBatch :: "'c batch \<Rightarrow> 'c batch" where
  "BeginBatch t = (case saved t of None \<Rightarrow> t\<lparr>saved := Some (cur t)\<rparr> | Some _ \<Rightarrow> t)"

definition Commit :: "'c batch \<Rightarrow> 'c batch" where
  "Commit t = t\<lparr>saved := None\<rparr>"

definition RollBack :: "'c batch \<Rightarrow> 'c batch" where
  "RollBack t = (case saved t of None \<Rightarrow> t | Some c \<Rightarrow> t\<lparr>cur := c, saved := None\<rparr>)"

definition trie_Get :: "trie \<Rightarrow> bytes \<Rightarrow> core_error + bytes" where
  "trie_Get t k = (case map_of t k of None \<Rightarrow> Inl ErrKeyNotFound | Some v \<Rightarrow> Inr v)"

definition trie_Put :: "trie \<Rightarrow> bytes \<Rightarrow> bytes \<Rightarrow> core_error + trie" where
  "trie_Put t k v = Inr (AList.update k v t)"

definition trie_Prove :: "trie \<Rightarrow> bytes \<Rightarrow> bytes option" where
  "trie_Prove t k = map_of t k"

definition trie_Iterator :: "trie \<Rightarrow> bytes \<Rightarrow> core_error + (bytes \<times> bytes) list" where
  "trie_Iterator t p =
     (case filter (\<lambda>kv. take (length p) (fst kv) = p) t of
        [] \<Rightarrow> Inl ErrKeyNotFound
      | es \<Rightarrow> Inr es)"

text \<open>Spec 4.2: get_or_create_user_account returns a handle with balance and nonce.\<close>

definition GetOrCreateUserAccount :: "accounts \<Rightarrow> Address \<Rightarrow> Account \<times> accounts" where
  "GetOrCreateUserAccount s a =
     (case map_of s a of
        Some acc \<Rightarrow> (acc, s)
      | None \<Rightarrow> (\<lparr>accBalance = 0, accNonce = 0\<rparr>, s @ [(a, \<lparr>accBalance = 0, accNonce = 0\<rparr>)]))"

definition AddBalance :: "accounts \<Rightarrow> Address \<Rightarrow> nat \<Rightarrow> accounts" where
  "AddBalance s a v =
     (let (acc, s1) = GetOrCreateUserAccount s a
      in AList.update a (acc\<lparr>accBalance := accBalance acc + v\<rparr>) s1)"

definition IncrNonce :: "accounts \<Rightarrow> Address \<Rightarrow> accounts" where
  "IncrNonce s a =
     (let (acc, s1) = GetOrCreateUserAccount s a
      in AList.update a (acc\<lparr>accNonce := accNonce acc + 1\<rparr>) s1)"

record DposTries =
  dynastyTrie :: trie
  nextDynastyTrie :: trie
  delegateTrie :: trie
  voteTrie :: trie
  candidateTrie :: trie
  mintCntTrie :: trie

text \<open>
  Block. The parent pointer, the transaction pool, the storage and the event emitter are
  references to objects that outlive the block: the parent is referred to by its hash, the
  others by a handle; the pool's and the emitter's contents are passed to the operations
  that use them and returned updated.
\<close>

record Block =
  header :: BlockHeader
  transactions :: "Transaction list"
  sealed :: bool
  height :: "64 word"
  parenetBlock :: "Hash option"
  accState :: "accounts batch"
  txsTrie :: "trie batch"
  eventsTrie :: "trie batch"
  dposContext :: "DposTries batch"
  txPool :: nat
  miner :: "Address option"
  storage :: nat
  eventEmitter :: nat

text \<open>The part of a block that an executing transaction can write: the four overlays' contents.\<close>

record world =
  w_acc :: accounts
  w_txs :: trie
  w_events :: trie
  w_dpos :: DposTries

text \<open>
  What block.go calls and neither this repository's sources nor the spec define: the SHA3-256
  digest (golang.org/x/crypto/sha3), the root hash of a trie and of the account state as a
  function of their content, the constant DynastyInterval of the consensus layer, the
  executor behind Transaction.VerifyExecution, the protobuf and JSON encoders, the consensus
  check, the clone of an overlay (it can fail on storage) and the dynasty context of the
  consensus layer.
\<close>

record externals =
  sha3_256 :: "bytes \<Rightarrow> Hash"
  trieRoot :: "trie \<Rightarrow> Hash"
  accRoot :: "accounts \<Rightarrow> Hash"
  DynastyInterval :: "64 word"
  txVerifyExecution :: "Transaction \<Rightarrow> world \<Rightarrow> core_error option \<times> world"
  txMarshal :: "Transaction \<Rightarrow> core_error + bytes"
  jsonTx :: "Transaction \<Rightarrow> string"
  jsonBlock :: "Block \<Rightarrow> string"
  jsonEvent :: "Event \<Rightarrow> core_error + bytes"
  jsonUnmarshalEvent :: "bytes \<Rightarrow> core_error + Event"
  consensusVerifyBlock :: "Block \<Rightarrow> Block \<Rightarrow> core_error option"
  accClone :: "accounts batch \<Rightarrow> accounts batch \<times> core_error option"
  trieClone :: "trie batch \<Rightarrow> trie batch \<times> core_error option"
  dposClone :: "DposTries batch \<Rightarrow> DposTries batch \<times> core_error option"
  NextDynastyContext :: "Block \<Rightarrow> 64 word \<Rightarrow> core_error + DposTries"
  LoadDynastyContext :: "Block \<Rightarrow> DposTries \<Rightarrow> core_error option \<times> Block"
  poolSenderNonce :: "Address \<Rightarrow> 64 word"

definition BlockReward :: nat where
  "BlockReward = 48 * 10 ^ 16"

section \<open>core: accessors and setters\<close>

definition SetNonce :: "Block \<Rightarrow> 64 word \<Rightarrow> Block" where
  "SetNonce block n =
     (if sealed block then block
      else block\<lparr>header := (header block)\<lparr>nonce := n\<rparr>\<rparr>)"

definition SetTimestamp :: "Block \<Rightarrow> 64 word \<Rightarrow> Block" where
  "SetTimestamp block ts =
     (if sealed block then block
      else block\<lparr>header := (header block)\<lparr>timestamp := ts\<rparr>\<rparr>)"

definition SetMiner :: "Block \<Rightarrow> Address option \<Rightarrow> Block" where
  "SetMiner block m = block\<lparr>miner := m\<rparr>"

section \<open>core: hashing\<close>

text \<open>A sha3 hasher is the bytes written to it so far; Sum digests them.\<close>

definition hasher_Write :: "bytes \<Rightarrow> bytes \<Rightarrow> bytes" where
  "hasher_Write h bs = h @ bs"

definition hasher_Sum :: "externals \<Rightarrow> bytes \<Rightarrow> Hash" where
  "hasher_Sum env h = sha3_256 env h"

text \<open>
  DposContextHash reads the six roots through header.dposContext and panics on the nil
  pointer; HashBlock calls it after four writes. Inl is the message of the panic.
\<close>

definition DposContextHash :: "externals \<Rightarrow> Block \<Rightarrow> string + Hash" where
  "DposContextHash env block =
     (case dposContextPb (header block) of
        None \<Rightarrow> Inl ''nil pointer dereference''
      | Some d \<Rightarrow>
          (let hasher = [];
               hasher = hasher_Write hasher (DynastyRoot d);
               hasher = hasher_Write hasher (NextDynastyRoot d);
               hasher = hasher_Write hasher (DelegateRoot d);
               hasher = hasher_Write hasher (VoteRoot d);
               hasher = hasher_Write hasher (CandidateRoot d);
               hasher = hasher_Write hasher (MintCntRoot d)
           in Inr (hasher_Sum env hasher)))"

definition HashBlock :: "externals \<Rightarrow> Block \<Rightarrow> string + Hash" where
  "HashBlock env block =
     (let hasher = [];
          hasher = hasher_Write hasher (parentHash (header block));
          hasher = hasher_Write hasher (stateRoot (header block));
          hasher = hasher_Write hasher (txsRoot (header block));
          hasher = hasher_Write hasher (eventsRoot (header block))
      in case DposContextHash env block of
           Inl p \<Rightarrow> Inl p
         | Inr dposHash \<Rightarrow>
             (let hasher = hasher_Write hasher dposHash;
                  hasher = hasher_Write hasher (FromUint64 (nonce (header block)));
                  hasher = hasher_Write hasher (coinbase (header block));
                  hasher = hasher_Write hasher (FromInt64 (timestamp (header block)));
                  hasher = hasher_Write hasher (FromUint32 (chainID (header block)));
                  hasher = foldl (\<lambda>h tx. hasher_Write h (txHash tx)) hasher (transactions block)
              in Inr (hasher_Sum env hasher)))"

section \<open>core: the batch discipline over the four overlays\<close>

definition begin_block :: "Block \<Rightarrow> Block" where
  "begin_block block =
     block\<lparr>accState := BeginBatch (accState block),
           txsTrie := BeginBatch (txsTrie block),
           eventsTrie := BeginBatch (eventsTrie block),
           dposContext := BeginBatch (dposContext block)\<rparr>"

definition commit :: "Block \<Rightarrow> Block" where
  "commit block =
     block\<lparr>accState := Commit (accState block),
           txsTrie := Commit (txsTrie block),
           eventsTrie := Commit (eventsTrie block),
           dposContext := Commit (dposContext block)\<rparr>"

definition rollback :: "Block \<Rightarrow> Block" where
  "rollback block =
     block\<lparr>accState := RollBack (accState block),
           txsTrie := RollBack (txsTrie block),
           eventsTrie := RollBack (eventsTrie block),
           dposContext := RollBack (dposContext block)\<rparr>"

text \<open>
  Modelled from the spec: DposContext.RootHash and DposContext.ToProto are not among the
  sources. Spec 4.5 and 3: ToProto serialises the six sub-roots, and the context hash is
  SHA3-256 of their concatenation.
\<close>

definition DposContext_ToProto ::
  "externals \<Rightarrow> DposTries \<Rightarrow> DposContextPb option \<times> core_error option" where
  "DposContext_ToProto env d =
     (Some \<lparr>DynastyRoot = trieRoot env (dynastyTrie d),
            NextDynastyRoot = trieRoot env (nextDynastyTrie d),
            DelegateRoot = trieRoot env (delegateTrie d),
            VoteRoot = trieRoot env (voteTrie d),
            CandidateRoot = trieRoot env (candidateTrie d),
            MintCntRoot = trieRoot env (mintCntTrie d)\<rparr>,
      None)"

definition DposContext_RootHash :: "externals \<Rightarrow> DposTries \<Rightarrow> Hash" where
  "DposContext_RootHash env d =
     sha3_256 env (trieRoot env (dynastyTrie d) @ trieRoot env (nextDynastyTrie d)
       @ trieRoot env (delegateTrie d) @ trieRoot env (voteTrie d)
       @ trieRoot env (candidateTrie d) @ trieRoot env (mintCntTrie d))"

text \<open>The four root hashes of a block's overlays, as RootHash reads them.\<close>

definition roots :: "externals \<Rightarrow> Block \<Rightarrow> Hash \<times> Hash \<times> Hash \<times> Hash" where
  "roots env block =
     (accRoot env (cur (accState block)),
      trieRoot env (cur (txsTrie block)),
      trieRoot env (cur (eventsTrie block)),
      DposContext_RootHash env (cur (dposContext block)))"

definition get_world :: "Block \<Rightarrow> world" where
  "get_world block =
     \<lparr>w_acc = cur (accState block), w_txs = cur (txsTrie block),
      w_events = cur (eventsTrie block), w_dpos = cur (dposContext block)\<rparr>"

definition set_world :: "Block \<Rightarrow> world \<Rightarrow> Block" where
  "set_world block w =
     block\<lparr>accState := (accState block)\<lparr>cur := w_acc w\<rparr>,
           txsTrie := (txsTrie block)\<lparr>cur := w_txs w\<rparr>,
           eventsTrie := (eventsTrie block)\<lparr>cur := w_events w\<rparr>,
           dposContext := (dposContext block)\<lparr>cur := w_dpos w\<rparr>\<rparr>"

section \<open>core: reward, mint count, transactions\<close>

definition rewardCoinbase :: "Block \<Rightarrow> Block" where
  "rewardCoinbase block =
     block\<lparr>accState := (accState block)
       \<lparr>cur := AddBalance (cur (accState block)) (coinbase (header block)) BlockReward\<rparr>\<rparr>"

definition put_mintCnt :: "Block \<Rightarrow> bytes \<Rightarrow> 64 word \<Rightarrow> core_error option \<times> Block" where
  "put_mintCnt block key cnt =
     (case trie_Put (mintCntTrie (cur (dposContext block))) key (FromInt64 cnt) of
        Inl e \<Rightarrow> (Some e, block)
      | Inr t \<Rightarrow>
          (None, block\<lparr>dposContext := (dposContext block)
                   \<lparr>cur := (cur (dposContext block))\<lparr>mintCntTrie := t\<rparr>\<rparr>\<rparr>))"

text \<open>
  recordMintCnt panics where Go does: on the division when DynastyInterval is zero, on
  block.miner.Bytes() when the miner is nil, in byteutils.Int64 on a stored count shorter
  than eight bytes.
\<close>

definition recordMintCnt :: "externals \<Rightarrow> Block \<Rightarrow> status \<times> Block" where
  "recordMintCnt env block =
     (if DynastyInterval env = 0 then (Panicked ''integer divide by zero'', block)
      else case miner block of
        None \<Rightarrow> (Panicked ''nil pointer dereference'', block)
      | Some m \<Rightarrow>
          (let key = FromInt64 (go_div64 (timestamp (header block)) (DynastyInterval env)) @ m
           in case trie_Get (mintCntTrie (cur (dposContext block))) key of
                Inl e \<Rightarrow>
                  (if e \<noteq> ErrKeyNotFound then (Returned (Some e), block)
                   else (case put_mintCnt block key (0 + 1) of
                           (err, block1) \<Rightarrow> (Returned err, block1)))
              | Inr bs \<Rightarrow>
                  (case Int64 bs of
                     None \<Rightarrow> (Panicked ''index out of range'', block)
                   | Some cnt \<Rightarrow>
                       (case put_mintCnt block key (cnt + 1) of
                          (err, block1) \<Rightarrow> (Returned err, block1)))))"

definition checkTransaction :: "Block \<Rightarrow> Transaction \<Rightarrow> bool \<times> core_error option \<times> Block" where
  "checkTransaction block tx =
     (if trie_Prove (cur (txsTrie block)) (txHash tx) \<noteq> None
      then (False, Some ErrDuplicatedTransaction, block)
      else
        (let (fromAcc, s) = GetOrCreateUserAccount (cur (accState block)) (txFrom tx);
             block1 = block\<lparr>accState := (accState block)\<lparr>cur := s\<rparr>\<rparr>
         in if txNonce tx < accNonce fromAcc + 1
            then (False, Some ErrSmallTransactionNonce, block1)
            else if txNonce tx > accNonce fromAcc + 1
            then (True, Some ErrLargeTransactionNonce, block1)
            else (False, None, block1)))"

definition acceptTransaction :: "externals \<Rightarrow> Block \<Rightarrow> Transaction \<Rightarrow> core_error option \<times> Block" where
  "acceptTransaction env block tx =
     (case txMarshal env tx of
        Inl e \<Rightarrow> (Some e, block)
      | Inr txBytes \<Rightarrow>
          (case trie_Put (cur (txsTrie block)) (txHash tx) txBytes of
             Inl e \<Rightarrow> (Some e, block)
           | Inr t \<Rightarrow>
               (None,
                block\<lparr>txsTrie := (txsTrie block)\<lparr>cur := t\<rparr>,
                      accState := (accState block)
                        \<lparr>cur := IncrNonce (cur (accState block)) (txFrom tx)\<rparr>\<rparr>)))"

definition executeTransaction :: "externals \<Rightarrow> Block \<Rightarrow> Transaction \<Rightarrow> bool \<times> core_error option \<times> Block" where
  "executeTransaction env block tx =
     (case checkTransaction block tx of
        (giveback, Some err, block1) \<Rightarrow> (giveback, Some err, block1)
      | (giveback, None, block1) \<Rightarrow>
          (case txVerifyExecution env tx (get_world block1) of
             (Some err, w) \<Rightarrow> (False, Some err, set_world block1 w)
           | (None, w) \<Rightarrow>
               (case acceptTransaction env (set_world block1 w) tx of
                  (Some err, block2) \<Rightarrow> (False, Some err, block2)
                | (None, block2) \<Rightarrow> (False, None, block2))))"

section \<open>core: the transaction pool and CollectTransactions\<close>

text \<open>
  Modelled from the spec: TransactionPool is not among the sources. Spec 3: a
  unique-by-hash queue; Push rejects duplicates and transactions whose nonce is strictly
  less than sender.nonce + 1; Pop returns a transaction of least nonce, the earliest
  inserted among equals.
\<close>

type_synonym pool = "Transaction list"

definition pool_Empty :: "pool \<Rightarrow> bool" where
  "pool_Empty p = (p = [])"

definition pool_least :: "Transaction \<Rightarrow> pool \<Rightarrow> Transaction" where
  "pool_least t ts = foldl (\<lambda>a b. if txNonce b < txNonce a then b else a) t ts"

definition pool_Pop :: "pool \<Rightarrow> (Transaction \<times> pool) option" where
  "pool_Pop p = (case p of [] \<Rightarrow> None | t # ts \<Rightarrow> Some (pool_least t ts, remove1 (pool_least t ts) p))"

definition pool_Push :: "externals \<Rightarrow> pool \<Rightarrow> Transaction \<Rightarrow> core_error option \<times> pool" where
  "pool_Push env p tx =
     (if txHash tx \<in> set (map txHash p) then (Some ErrDuplicatedTransaction, p)
      else if txNonce tx < poolSenderNonce env (txFrom tx) + 1 then (Some ErrSmallTransactionNonce, p)
      else (None, p @ [tx]))"

text \<open>The state of the loop of CollectTransactions: block, pool, givebacks, n.\<close>

type_synonym collect_state = "Block \<times> pool \<times> Transaction list \<times> int"

definition collect_guard :: "collect_state \<Rightarrow> bool" where
  "collect_guard s = (case s of (block, p, givebacks, n) \<Rightarrow> \<not> pool_Empty p \<and> n > 0)"

definition collect_body :: "externals \<Rightarrow> collect_state \<Rightarrow> collect_state" where
  "collect_body env s =
     (case s of (block, p, givebacks, n) \<Rightarrow>
        (case pool_Pop p of
           None \<Rightarrow> s
         | Some (tx, p1) \<Rightarrow>
             (case executeTransaction env (begin_block block) tx of
                (giveback, err, block1) \<Rightarrow>
                  (let givebacks1 = (if giveback then givebacks @ [tx] else givebacks)
                   in if err = None
                      then ((commit block1)\<lparr>transactions := transactions block1 @ [tx]\<rparr>,
                            p1, givebacks1, n - 1)
                      else (rollback block1, p1, givebacks1, n)))))"

function collect_loop :: "externals \<Rightarrow> collect_state \<Rightarrow> collect_state" where
  "collect_loop env s = (if collect_guard s then collect_loop env (collect_body env s) else s)"
  by pat_completeness auto
termination
proof (relation "measure (\<lambda>(env, s). length (fst (snd s)))")
  show "wf (measure (\<lambda>(env, s). length (fst (snd s))))"
    by simp
next
  fix env :: externals and s :: collect_state
  assume g: "collect_guard s"
  obtain block p givebacks n where s: "s = (block, p, givebacks, n)"
    by (cases s) auto
  from g s obtain t ts where p: "p = t # ts"
    by (cases p) (auto simp: collect_guard_def pool_Empty_def)
  have mem: "foldl (\<lambda>a b. if txNonce b < txNonce a then b else a) a xs \<in> set (a # xs)"
    for a :: Transaction and xs
    by (induction xs arbitrary: a) auto
  have "pool_least t ts \<in> set p"
    unfolding pool_least_def p by (rule mem)
  then have "length (remove1 (pool_least t ts) p) < length p"
    using length_pos_if_in_set [of "pool_least t ts" p] by (simp add: length_remove1)
  moreover have "fst (snd (collect_body env s)) = remove1 (pool_least t ts) p"
    by (simp add: s p collect_body_def pool_Pop_def Let_def split: prod.splits del: remove1.simps)
  ultimately have "length (fst (snd (collect_body env s))) < length (fst (snd s))"
    by (simp add: s)
  then show "((env, collect_body env s), (env, s)) \<in> measure (\<lambda>(env, s). length (fst (snd s)))"
    by simp
qed

definition giveback_all :: "externals \<Rightarrow> pool \<Rightarrow> Transaction list \<Rightarrow> pool" where
  "giveback_all env p givebacks = foldl (\<lambda>q tx. snd (pool_Push env q tx)) p givebacks"

definition CollectTransactions :: "externals \<Rightarrow> Block \<Rightarrow> pool \<Rightarrow> int \<Rightarrow> Block \<times> pool" where
  "CollectTransactions env block p n =
     (if sealed block then (block, p)
      else case collect_loop env (block, p, [], n) of
             (block1, p1, givebacks, n1) \<Rightarrow> (block1, giveback_all env p1 givebacks))"

section \<open>core: NewBlock, Seal, LinkParentBlock\<close>

text \<open>NewBlock; the last argument is the reading of the clock (time.Now().Unix()).\<close>

definition NewBlock :: "externals \<Rightarrow> 32 word \<Rightarrow> Address \<Rightarrow> Block \<Rightarrow> 64 word \<Rightarrow> core_error + Block" where
  "NewBlock env chain cb parent now =
     (case accClone env (accState parent) of
        (a, Some err) \<Rightarrow> Inl err
      | (a, None) \<Rightarrow>
     (case trieClone env (txsTrie parent) of
        (t, Some err) \<Rightarrow> Inl err
      | (t, None) \<Rightarrow>
     (case trieClone env (eventsTrie parent) of
        (e, Some err) \<Rightarrow> Inl err
      | (e, None) \<Rightarrow>
     (case dposClone env (dposContext parent) of
        (d, Some err) \<Rightarrow> Inl err
      | (d, None) \<Rightarrow>
          (let block =
                 \<lparr>header =
                    \<lparr>hash = [], parentHash = hash (header parent), stateRoot = [], txsRoot = [],
                     eventsRoot = [],
                     dposContextPb =
                       Some \<lparr>DynastyRoot = [], NextDynastyRoot = [], DelegateRoot = [],
                             VoteRoot = [], CandidateRoot = [], MintCntRoot = []\<rparr>,
                     coinbase = cb, nonce = 0, timestamp = now, chainID = chain,
                     alg = 0, sign = []\<rparr>,
                  transactions = [], sealed = False, height = height parent + 1,
                  parenetBlock = Some (hash (header parent)),
                  accState = a, txsTrie = t, eventsTrie = e, dposContext = d,
                  txPool = txPool parent, miner = None,
                  storage = storage parent, eventEmitter = eventEmitter parent\<rparr>
           in Inr (commit (rewardCoinbase (begin_block block))))))))"

text \<open>
  Seal. An error of recordMintCnt is answered by rollback; a panic of recordMintCnt leaves
  Seal with the batch of begin still open. ToProto's result is assigned to
  header.dposContext before its error is tested.
\<close>

definition Seal :: "externals \<Rightarrow> Block \<Rightarrow> status \<times> Block" where
  "Seal env block =
     (if sealed block then (Returned (Some ErrDoubleSealBlock), block)
      else case recordMintCnt env (begin_block block) of
        (Panicked p, block1) \<Rightarrow> (Panicked p, block1)
      | (Returned (Some err), block1) \<Rightarrow> (Returned (Some err), rollback block1)
      | (Returned None, block1) \<Rightarrow>
          (let block2 = commit block1;
               block3 = block2\<lparr>header := (header block2)
                          \<lparr>stateRoot := accRoot env (cur (accState block2)),
                           txsRoot := trieRoot env (cur (txsTrie block2)),
                           eventsRoot := trieRoot env (cur (eventsTrie block2))\<rparr>\<rparr>
           in case DposContext_ToProto env (cur (dposContext block3)) of
                (pb, err) \<Rightarrow>
                  (let block4 = block3\<lparr>header := (header block3)\<lparr>dposContextPb := pb\<rparr>\<rparr>
                   in if err \<noteq> None then (Returned err, block4)
                      else case HashBlock env block4 of
                             Inl p \<Rightarrow> (Panicked p, block4)
                           | Inr h \<Rightarrow>
                               (let block5 = block4\<lparr>header := (header block4)\<lparr>hash := h\<rparr>\<rparr>
                                in (Returned None, block5\<lparr>sealed := True\<rparr>)))))"

definition LinkParentBlock :: "externals \<Rightarrow> Block \<Rightarrow> Block \<Rightarrow> core_error option \<times> Block" where
  "LinkParentBlock env block parentBlock =
     (if parentHash (header block) \<noteq> hash (header parentBlock)
      then (Some ErrLinkToWrongParentBlock, block)
      else case accClone env (accState parentBlock) of (a, err1) \<Rightarrow>
        (let block1 = block\<lparr>accState := a\<rparr>
         in if err1 \<noteq> None then (Some ErrCloneAccountState, block1)
         else case trieClone env (txsTrie parentBlock) of (t, err2) \<Rightarrow>
        (let block2 = block1\<lparr>txsTrie := t\<rparr>
         in if err2 \<noteq> None then (Some ErrCloneTxsState, block2)
         else case trieClone env (eventsTrie parentBlock) of (e, err3) \<Rightarrow>
        (let block3 = block2\<lparr>eventsTrie := e\<rparr>;
             elapsedSecond = timestamp (header block3) - timestamp (header parentBlock)
         in if err3 \<noteq> None then (Some ErrCloneEventsState, block3)
         else case NextDynastyContext env parentBlock elapsedSecond of
                Inl err \<Rightarrow> (Some ErrGenerateNextDynastyContext, block3)
              | Inr context \<Rightarrow>
                  (case LoadDynastyContext env block3 context of
                     (Some err, block4) \<Rightarrow> (Some ErrLoadNextDynastyContext, block4)
                   | (None, block4) \<Rightarrow>
                       (None,
                        block4\<lparr>txPool := txPool parentBlock,
                               parenetBlock := Some (hash (header parentBlock)),
                               storage := storage parentBlock,
                               height := height parentBlock + 1,
                               eventEmitter := eventEmitter parentBlock\<rparr>))))))"

section \<open>core: events\<close>

text \<open>
  Modelled from the spec: EventEmitter is not among the sources. Spec 4.8: Trigger is an
  in-memory publish to subscribers. The emitter is the sequence of events published so far.
  The topics are the subscriber topics of spec 6.
\<close>

definition Trigger :: "Event list \<Rightarrow> Event \<Rightarrow> Event list" where
  "Trigger emitter e = emitter @ [e]"

definition TopicSendTransaction :: string where "TopicSendTransaction = ''chain.sendTransaction''"
definition TopicDeploySmartContract :: string where "TopicDeploySmartContract = ''chain.deployContract''"
definition TopicCallSmartContract :: string where "TopicCallSmartContract = ''chain.callContract''"
definition TopicDelegate :: string where "TopicDelegate = ''chain.delegate''"
definition TopicCandidate :: string where "TopicCandidate = ''chain.candidate''"
definition TopicLinkBlock :: string where "TopicLinkBlock = ''chain.linkBlock''"

definition recordEvent :: "externals \<Rightarrow> Block \<Rightarrow> Hash \<Rightarrow> Event \<Rightarrow> core_error option \<times> Block" where
  "recordEvent env block h event =
     (case (case trie_Iterator (cur (eventsTrie block)) h of
              Inl err \<Rightarrow> (if err \<noteq> ErrKeyNotFound then Inl err else Inr 0)
            | Inr es \<Rightarrow> Inr (foldl (\<lambda>cnt kv. cnt + 1) (0 :: 64 word) es)) of
        Inl err \<Rightarrow> (Some err, block)
      | Inr cnt \<Rightarrow>
          (let key = h @ FromInt64 (cnt + 1)
           in case jsonEvent env event of
                Inl err \<Rightarrow> (Some err, block)
              | Inr bs \<Rightarrow>
                  (case trie_Put (cur (eventsTrie block)) key bs of
                     Inl err \<Rightarrow> (Some err, block)
                   | Inr t \<Rightarrow> (None, block\<lparr>eventsTrie := (eventsTrie block)\<lparr>cur := t\<rparr>\<rparr>))))"

definition RecordEvent :: "externals \<Rightarrow> Block \<Rightarrow> Hash \<Rightarrow> string \<Rightarrow> string \<Rightarrow> core_error option \<times> Block" where
  "RecordEvent env block h topic d = recordEvent env block h \<lparr>Topic = topic, Data = d\<rparr>"

text \<open>The loop of FetchEvents over the iterator; on an error it returns (nil, err).\<close>

fun fetch_loop :: "externals \<Rightarrow> (bytes \<times> bytes) list \<Rightarrow> Event list \<Rightarrow> Event list \<times> core_error option" where
  "fetch_loop env [] events = (events, None)"
| "fetch_loop env (kv # rest) events =
     (case jsonUnmarshalEvent env (snd kv) of
        Inl err \<Rightarrow> ([], Some err)
      | Inr event \<Rightarrow> fetch_loop env rest (events @ [event]))"

definition FetchEvents :: "externals \<Rightarrow> Block \<Rightarrow> Hash \<Rightarrow> Event list \<times> core_error option" where
  "FetchEvents env block h =
     (case trie_Iterator (cur (eventsTrie block)) h of
        Inl err \<Rightarrow> (if err \<noteq> ErrKeyNotFound then ([], Some err) else ([], None))
      | Inr es \<Rightarrow> fetch_loop env es [])"

definition tx_topic :: "Transaction \<Rightarrow> string" where
  "tx_topic v =
     (case txType v of
        TxPayloadBinaryType \<Rightarrow> TopicSendTransaction
      | TxPayloadDeployType \<Rightarrow> TopicDeploySmartContract
      | TxPayloadCallType \<Rightarrow> TopicCallSmartContract
      | TxPayloadDelegateType \<Rightarrow> TopicDelegate
      | TxPayloadCandidateType \<Rightarrow> TopicCandidate
      | TxPayloadOther _ \<Rightarrow> [])"

definition trigger_tx :: "externals \<Rightarrow> Block \<Rightarrow> Event list \<Rightarrow> Transaction \<Rightarrow> Event list" where
  "trigger_tx env block emitter v =
     (let event = \<lparr>Topic = tx_topic v, Data = jsonTx env v\<rparr>;
          emitter1 = Trigger emitter event
      in case FetchEvents env block (txHash v) of
           (events, err) \<Rightarrow>
             (if err \<noteq> None then foldl Trigger emitter1 events else emitter1))"

definition triggerEvent :: "externals \<Rightarrow> Block \<Rightarrow> Event list \<Rightarrow> Event list" where
  "triggerEvent env block emitter =
     (let emitter1 = foldl (trigger_tx env block) emitter (transactions block);
          e = \<lparr>Topic = TopicLinkBlock, Data = jsonBlock env block\<rparr>
      in Trigger emitter1 e)"

section \<open>core: verification of the execution\<close>

text \<open>
  verifyState compares the three roots and then the DPoS context root with
  DposContextHash, which panics on a header without a DPoS context.
\<close>

definition verifyState :: "externals \<Rightarrow> Block \<Rightarrow> status" where
  "verifyState env block =
     (if accRoot env (cur (accState block)) \<noteq> stateRoot (header block)
        then Returned (Some ErrInvalidBlockStateRoot)
      else if trieRoot env (cur (txsTrie block)) \<noteq> txsRoot (header block)
        then Returned (Some ErrInvalidBlockTxsRoot)
      else if trieRoot env (cur (eventsTrie block)) \<noteq> eventsRoot (header block)
        then Returned (Some ErrInvalidBlockEventsRoot)
      else case DposContextHash env block of
             Inl p \<Rightarrow> Panicked p
           | Inr dposHash \<Rightarrow>
               (if DposContext_RootHash env (cur (dposContext block)) \<noteq> dposHash
                  then Returned (Some ErrInvalidBlockDposContextRoot)
                else Returned None))"

fun execute_txs :: "externals \<Rightarrow> Block \<Rightarrow> pool \<Rightarrow> Transaction list \<Rightarrow> core_error option \<times> Block \<times> pool" where
  "execute_txs env block p [] = (None, block, p)"
| "execute_txs env block p (tx # txs) =
     (case executeTransaction env block tx of
        (giveback, err, block1) \<Rightarrow>
          (case (if giveback then pool_Push env p tx else (None, p)) of
             (Some perr, p1) \<Rightarrow> (Some perr, block1, p1)
           | (None, p1) \<Rightarrow>
               (case err of
                  Some e \<Rightarrow> (Some e, block1, p1)
                | None \<Rightarrow> execute_txs env block1 p1 txs)))"

definition execute :: "externals \<Rightarrow> Block \<Rightarrow> pool \<Rightarrow> status \<times> Block \<times> pool" where
  "execute env block p =
     (case execute_txs env (rewardCoinbase block) p (transactions block) of
        (Some err, block1, p1) \<Rightarrow> (Returned (Some err), block1, p1)
      | (None, block1, p1) \<Rightarrow>
          (case recordMintCnt env block1 of (st, block2) \<Rightarrow> (st, block2, p1)))"

text \<open>
  VerifyExecution. An error of execute or of verifyState is answered by rollback; a panic
  in either leaves VerifyExecution with the batch of begin still open.
\<close>

definition VerifyExecution ::
  "externals \<Rightarrow> Block \<Rightarrow> Block \<Rightarrow> pool \<Rightarrow> Event list \<Rightarrow> status \<times> Block \<times> pool \<times> Event list" where
  "VerifyExecution env block parent p emitter =
     (case consensusVerifyBlock env block parent of
        Some err \<Rightarrow> (Returned (Some err), block, p, emitter)
      | None \<Rightarrow>
          (case execute env (begin_block block) p of
             (Panicked m, block1, p1) \<Rightarrow> (Panicked m, block1, p1, emitter)
           | (Returned (Some err), block1, p1) \<Rightarrow> (Returned (Some err), rollback block1, p1, emitter)
           | (Returned None, block1, p1) \<Rightarrow>
               (case verifyState env block1 of
                  Panicked m \<Rightarrow> (Panicked m, block1, p1, emitter)
                | Returned (Some err) \<Rightarrow> (Returned (Some err), rollback block1, p1, emitter)
                | Returned None \<Rightarrow>
                    (let block2 = commit block1
                     in (Returned None, block2, p1, triggerEvent env block2 emitter)))))"

section \<open>net/p2p: checksum, wire format\<close>

text \<open>
  crc32.ChecksumIEEE of Go's standard library: the CRC-32 of IEEE 802.3 (reflected
  polynomial 0xEDB88320, initial value and final complement all ones), bit by bit.
\<close>

definition crc_bit :: "32 word \<Rightarrow> 32 word" where
  "crc_bit s = (if bit s 0 then drop_bit 1 s XOR 0xEDB88320 else drop_bit 1 s)"

definition crc_byte :: "32 word \<Rightarrow> byte \<Rightarrow> 32 word" where
  "crc_byte s b = (crc_bit ^^ 8) (s XOR ucast b)"

definition ChecksumIEEE :: "bytes \<Rightarrow> 32 word" where
  "ChecksumIEEE bs = NOT (foldl crc_byte (NOT 0) bs)"

definition HELLO :: string where "HELLO = ''hello''"
definition OK :: string where "OK = ''ok''"
definition BYE :: string where "BYE = ''bye''"
definition SyncRoute :: string where "SyncRoute = ''syncroute''"
definition SyncRouteReply :: string where "SyncRouteReply = ''resyncroute''"
definition NewHashMsg :: string where "NewHashMsg = ''newhashmsg''"
definition ClientVersion :: string where "ClientVersion = ''0.2.0''"
definition NetworkID :: string where "NetworkID = ''networkid''"
definition NetworkIDReply :: string where "NetworkIDReply = ''renetworkid''"

definition SNC :: int where "SNC = - 1"
definition SHandshaking :: int where "SHandshaking = 0"
definition SOK :: int where "SOK = 1"

definition MagicNumber :: bytes where
  "MagicNumber = [0x4e, 0x45, 0x42, 0x31]"

definition offsetFour :: nat where "offsetFour = 4"
definition offsetEight :: nat where "offsetEight = 8"
definition offsetEleven :: nat where "offsetEleven = 11"
definition offsetTwelve :: nat where "offsetTwelve = 12"
definition offsetTwentyFour :: nat where "offsetTwentyFour = 24"
definition offsetTwentyEight :: nat where "offsetTwentyEight = 28"
definition offsetThirtyTwo :: nat where "offsetThirtyTwo = 32"
definition offsetThirtySix :: nat where "offsetThirtySix = 36"

datatype net_error =
    ErrRead
  | ErrVerifyHeader
  | ErrDataChecksum
  | ErrNotSameNetwork
  | ErrStreamNotExist
  | ErrWriteNil
  | ErrWrite
  | ErrDecode
  | NetPanic string

record Protocol =
  magicNumber :: bytes
  protoChainID :: bytes
  protoVersion :: byte
  msgName :: string
  dataLength :: bytes
  dataChecksum :: bytes
  headerChecksum :: bytes
  dataHeader :: bytes
  data :: bytes
  reserved :: bytes

text \<open>
  A libp2p stream, as the service uses it: the bytes still to be read, the bytes written,
  and whether it was closed. Streams are shared objects: the service holds them in a store
  and refers to them by handle; a handle without a stream is the nil stream.
\<close>

record Stream =
  inbound :: bytes
  outbound :: bytes
  closed :: bool

record StreamStore =
  key :: string
  conn :: int
  ss_stream :: nat

datatype AddrTTL = PermanentAddrTTL | ProviderAddrTTL

type_synonym peer_id = bytes
type_synonym multiaddr = string

record P2PConfig =
  ConfigChainID :: "32 word"
  ConfigNetworkID :: "32 word"

text \<open>
  Node, with the fields net_service.go uses. The per-peer map node.stream and the network-id
  cache are maps; the peer store keeps each peer's addresses with their TTL; the routing
  table and the stream cache are sequences.
\<close>

record Node =
  id :: peer_id
  config :: P2PConfig
  version :: byte
  stream :: "string \<rightharpoonup> StreamStore"
  streamCache :: "StreamStore list"
  peerstore :: "peer_id \<Rightarrow> (multiaddr \<times> AddrTTL) list"
  routeTable :: "peer_id list"
  networkIDCache :: "string \<rightharpoonup> 32 word"
  bootIds :: "string list"

record NetService =
  node :: Node
  streams :: "nat \<rightharpoonup> Stream"
  packetOut :: nat

record HelloMessage =
  NodeID :: string
  HelloClientVersion :: string

text \<open>
  What net_service.go calls in libp2p and protobuf: the two printed forms of a peer id and
  the decoding of a Hello message (proto.Unmarshal, then FromProto).
\<close>

record net_externals =
  pidString :: "peer_id \<Rightarrow> string"
  pidPretty :: "peer_id \<Rightarrow> string"
  protoUnmarshalHello :: "bytes \<Rightarrow> net_error + HelloMessage"
  helloFromProto :: "HelloMessage \<Rightarrow> net_error + HelloMessage"

text \<open>Go's xs[i:j], copy(dst[off:], src) and bytes.IndexByte.\<close>

definition slice :: "'a list \<Rightarrow> nat \<Rightarrow> nat \<Rightarrow> 'a list" where
  "slice xs i j = take (j - i) (drop i xs)"

definition copy_at :: "bytes \<Rightarrow> nat \<Rightarrow> bytes \<Rightarrow> bytes" where
  "copy_at dst off src =
     (let n = min (length src) (length dst - off)
      in take off dst @ take n src @ drop (off + n) dst)"

definition IndexByte :: "bytes \<Rightarrow> byte \<Rightarrow> int" where
  "IndexByte bs c = (if c \<in> set bs then int (length (takeWhile (\<lambda>b. b \<noteq> c) bs)) else - 1)"

text \<open>io.ReadFull on the stream: exactly n bytes, or an error.\<close>

definition ReadBytes :: "Stream \<Rightarrow> 32 word \<Rightarrow> (net_error + bytes) \<times> Stream" where
  "ReadBytes s n =
     (if unat n \<le> length (inbound s)
      then (Inr (take (unat n) (inbound s)), s\<lparr>inbound := drop (unat n) (inbound s)\<rparr>)
      else (Inl ErrRead, s\<lparr>inbound := []\<rparr>))"

definition Write :: "NetService \<Rightarrow> nat \<Rightarrow> bytes \<Rightarrow> net_error option \<times> NetService" where
  "Write ns w d =
     (case streams ns w of
        None \<Rightarrow> (Some ErrWriteNil, ns)
      | Some s \<Rightarrow>
          (if closed s then (Some ErrWrite, ns)
           else (None, ns\<lparr>streams := (streams ns)(w \<mapsto> s\<lparr>outbound := outbound s @ d\<rparr>)\<rparr>)))"

definition buildHeader :: "32 word \<Rightarrow> string \<Rightarrow> byte \<Rightarrow> 32 word \<Rightarrow> 32 word \<Rightarrow> bytes \<Rightarrow> bytes" where
  "buildHeader chain name ver dataLen dataCrc rsv =
     (let metaHeader = replicate offsetThirtyTwo 0;
          msgNameByte = bytes_of_string name;
          metaHeader = copy_at metaHeader 0 MagicNumber;
          metaHeader = copy_at metaHeader offsetFour (FromUint32 chain);
          metaHeader = copy_at metaHeader offsetEight rsv;
          metaHeader = copy_at metaHeader offsetEleven [ver];
          metaHeader = copy_at metaHeader offsetTwelve msgNameByte;
          metaHeader = copy_at metaHeader offsetTwentyFour (FromUint32 dataLen);
          metaHeader = copy_at metaHeader offsetTwentyEight (FromUint32 dataCrc)
      in metaHeader)"

definition buildData :: "NetService \<Rightarrow> bytes \<Rightarrow> string \<Rightarrow> bytes" where
  "buildData ns d name =
     (let dataCrc = ChecksumIEEE d;
          rsv = [0];
          metaHeader = buildHeader (ConfigChainID (config (node ns))) name (version (node ns))
                         (of_nat (length d)) dataCrc rsv;
          headerCrc = ChecksumIEEE metaHeader;
          metaHeader = metaHeader @ FromUint32 headerCrc;
          totalData = metaHeader @ d
      in totalData)"

definition verifyHeader :: "NetService \<Rightarrow> Protocol \<Rightarrow> bool option" where
  "verifyHeader ns protocol =
     (let dataHeaderChecksum = ChecksumIEEE (dataHeader protocol)
      in if MagicNumber \<noteq> magicNumber protocol then Some False
         else case Uint32 (protoChainID protocol) of
           None \<Rightarrow> None
         | Some c \<Rightarrow>
             (if ConfigChainID (config (node ns)) \<noteq> c then Some False
              else if version (node ns) \<noteq> protoVersion protocol then Some False
              else case Uint32 (headerChecksum protocol) of
                None \<Rightarrow> None
              | Some h \<Rightarrow> (if dataHeaderChecksum \<noteq> h then Some False else Some True)))"

definition parse_name :: "bytes \<Rightarrow> string" where
  "parse_name field =
     (let index = IndexByte field 0
      in if index \<noteq> - 1 then string_of_bytes (slice field 0 (nat index))
         else string_of_bytes field)"

definition parse :: "NetService \<Rightarrow> Stream \<Rightarrow> (net_error + Protocol) \<times> Stream" where
  "parse ns s =
     (case ReadBytes s (of_nat offsetThirtySix) of
        (Inl err, s1) \<Rightarrow> (Inl err, s1)
      | (Inr hdr, s1) \<Rightarrow>
          (let protocol =
                 \<lparr>magicNumber = slice hdr 0 offsetFour,
                  protoChainID = slice hdr offsetFour offsetEight,
                  protoVersion = hdr ! offsetEleven,
                  msgName = parse_name (slice hdr offsetTwelve offsetTwentyFour),
                  dataLength = slice hdr offsetTwentyFour offsetTwentyEight,
                  dataChecksum = slice hdr offsetTwentyEight offsetThirtyTwo,
                  headerChecksum = slice hdr offsetThirtyTwo offsetThirtySix,
                  dataHeader = slice hdr 0 offsetThirtyTwo,
                  data = [],
                  reserved = slice hdr offsetEight offsetEleven\<rparr>
           in case verifyHeader ns protocol of
                None \<Rightarrow> (Inl (NetPanic ''index out of range''), s1)
              | Some False \<Rightarrow> (Inl ErrVerifyHeader, s1)
              | Some True \<Rightarrow>
                  (case Uint32 (dataLength protocol) of
                     None \<Rightarrow> (Inl (NetPanic ''index out of range''), s1)
                   | Some len \<Rightarrow>
                       (case ReadBytes s1 len of
                          (Inl err, s2) \<Rightarrow> (Inl err, s2)
                        | (Inr d, s2) \<Rightarrow>
                            (case Uint32 (dataChecksum protocol) of
                               None \<Rightarrow> (Inl (NetPanic ''index out of range''), s2)
                             | Some c \<Rightarrow>
                                 (if ChecksumIEEE d \<noteq> c then (Inl ErrDataChecksum, s2)
                                  else (Inr (protocol\<lparr>data := d\<rparr>), s2)))))))"

section \<open>net/p2p: sending, network-id gate\<close>

definition sendMsg :: "NetService \<Rightarrow> string \<Rightarrow> bytes \<Rightarrow> nat \<Rightarrow> net_error option \<times> NetService" where
  "sendMsg ns name msg w =
     (let totalData = buildData ns msg name
      in case Write ns w totalData of
           (Some err, ns1) \<Rightarrow> (Some err, ns1)
         | (None, ns1) \<Rightarrow> (None, ns1\<lparr>packetOut := packetOut ns1 + 1\<rparr>))"

definition checkNetworkID :: "NetService \<Rightarrow> string \<Rightarrow> bool" where
  "checkNetworkID ns target =
     (case networkIDCache (node ns) target of
        Some targetNetworkID \<Rightarrow>
          (if ConfigNetworkID (config (node ns)) AND targetNetworkID > 0 then True else False)
      | None \<Rightarrow> False)"

definition SendMsg :: "NetService \<Rightarrow> string \<Rightarrow> bytes \<Rightarrow> string \<Rightarrow> net_error option \<times> NetService" where
  "SendMsg ns name msg target =
     (if name \<noteq> NetworkID \<and> \<not> checkNetworkID ns target then (Some ErrNotSameNetwork, ns)
      else case stream (node ns) target of
        None \<Rightarrow> (Some ErrStreamNotExist, ns)
      | Some streamStore \<Rightarrow>
          (case sendMsg ns name msg (ss_stream streamStore) of
             (Some err, ns1) \<Rightarrow> (Some err, ns1)
           | (None, ns1) \<Rightarrow> (None, ns1\<lparr>packetOut := packetOut ns1 + 1\<rparr>)))"

section \<open>net/p2p: the OK message and Bye\<close>

fun InArray :: "'a \<Rightarrow> 'a list \<Rightarrow> bool" where
  "InArray obj [] = False"
| "InArray obj (x # xs) = (if x = obj then True else InArray obj xs)"

text \<open>
  The libp2p peer store, the routing table and the stream cache, as far as the service
  uses them: AddAddr records an address with its TTL, SetAddrs with TTL 0 drops the given
  addresses, Update and Remove enter and delete a peer, Insert adds a stream to the cache.
\<close>

definition peerstore_AddAddr ::
  "(peer_id \<Rightarrow> (multiaddr \<times> AddrTTL) list) \<Rightarrow> peer_id \<Rightarrow> multiaddr \<Rightarrow> AddrTTL
     \<Rightarrow> (peer_id \<Rightarrow> (multiaddr \<times> AddrTTL) list)" where
  "peerstore_AddAddr ps pid addr ttl = ps(pid := AList.update addr ttl (ps pid))"

definition peerstore_SetAddrs0 ::
  "(peer_id \<Rightarrow> (multiaddr \<times> AddrTTL) list) \<Rightarrow> peer_id \<Rightarrow> multiaddr list
     \<Rightarrow> (peer_id \<Rightarrow> (multiaddr \<times> AddrTTL) list)" where
  "peerstore_SetAddrs0 ps pid addrs = ps(pid := filter (\<lambda>e. fst e \<notin> set addrs) (ps pid))"

definition routeTable_Update :: "peer_id list \<Rightarrow> peer_id \<Rightarrow> peer_id list" where
  "routeTable_Update rt pid = pid # removeAll pid rt"

definition routeTable_Remove :: "peer_id list \<Rightarrow> peer_id \<Rightarrow> peer_id list" where
  "routeTable_Remove rt pid = removeAll pid rt"

definition streamCache_Insert :: "StreamStore list \<Rightarrow> StreamStore \<Rightarrow> StreamStore list" where
  "streamCache_Insert c ss = c @ [ss]"

definition NewStreamStore :: "string \<Rightarrow> int \<Rightarrow> nat \<Rightarrow> StreamStore" where
  "NewStreamStore k c s = \<lparr>key = k, conn = c, ss_stream = s\<rparr>"

definition stream_Close :: "NetService \<Rightarrow> nat \<Rightarrow> NetService" where
  "stream_Close ns s =
     (case streams ns s of
        None \<Rightarrow> ns
      | Some st \<Rightarrow> ns\<lparr>streams := (streams ns)(s \<mapsto> st\<lparr>closed := True\<rparr>)\<rparr>)"

definition clearPeerStore :: "net_externals \<Rightarrow> NetService \<Rightarrow> peer_id \<Rightarrow> multiaddr list \<Rightarrow> NetService" where
  "clearPeerStore ext ns pid addrs =
     (let n1 = (node ns)\<lparr>peerstore := peerstore_SetAddrs0 (peerstore (node ns)) pid addrs\<rparr>;
          n2 = (if \<not> InArray (pidPretty ext pid) (bootIds n1)
                then n1\<lparr>routeTable := routeTable_Remove (routeTable n1) pid\<rparr>
                else n1)
      in ns\<lparr>node := n2\<rparr>)"

definition Bye :: "net_externals \<Rightarrow> NetService \<Rightarrow> peer_id \<Rightarrow> multiaddr list \<Rightarrow> nat \<Rightarrow> string \<Rightarrow> NetService" where
  "Bye ext ns pid addrs s k =
     (let ns1 = clearPeerStore ext ns pid addrs;
          ns2 = ns1\<lparr>node := (node ns1)\<lparr>stream := (stream (node ns1))(k := None)\<rparr>\<rparr>
      in stream_Close ns2 s)"

definition handleOkMsg ::
  "net_externals \<Rightarrow> NetService \<Rightarrow> bytes \<Rightarrow> peer_id \<Rightarrow> nat \<Rightarrow> multiaddr \<Rightarrow> string \<Rightarrow> bool \<times> NetService" where
  "handleOkMsg ext ns d pid s addrs k =
     (case protoUnmarshalHello ext d of
        Inl err \<Rightarrow> (False, Bye ext ns pid [addrs] s k)
      | Inr pb \<Rightarrow>
          (case helloFromProto ext pb of
             Inl err \<Rightarrow> (False, Bye ext ns pid [addrs] s k)
           | Inr ok \<Rightarrow>
               (if NodeID ok = pidString ext pid \<and> HelloClientVersion ok = ClientVersion
                then
                  (let streamStore = NewStreamStore k SOK s;
                       n1 = (node ns)\<lparr>stream := (stream (node ns))(k \<mapsto> streamStore)\<rparr>;
                       n2 = n1\<lparr>streamCache := streamCache_Insert (streamCache n1) streamStore\<rparr>;
                       n3 = n2\<lparr>peerstore := peerstore_AddAddr (peerstore n2) pid addrs PermanentAddrTTL\<rparr>;
                       n4 = n3\<lparr>routeTable := routeTable_Update (routeTable n3) pid\<rparr>
                   in (True, ns\<lparr>node := n4\<rparr>))
                else (False, Bye ext ns pid [addrs] s k))))"

section \<open>Sample collaborators and blocks\<close>

text \<open>
  One choice of the collaborators, on which the operations can be evaluated: a digest that
  prefixes the length, roots that concatenate the content, an executor that records an event
  for a deploy transaction and fails, after having written, on a call transaction.
\<close>

definition demo_vm :: "Transaction \<Rightarrow> world \<Rightarrow> core_error option \<times> world" where
  "demo_vm tx w =
     (if txType tx = TxPayloadDeployType
        then (None, w\<lparr>w_events := w_events w @ [(txHash tx @ FromInt64 1, bytes_of_string ''deployed'')]\<rparr>)
      else if txType tx = TxPayloadCallType
        then (Some (ErrExternal ''execution failed''),
              w\<lparr>w_acc := AddBalance (w_acc w) (txFrom tx) 5,
                w_txs := w_txs w @ [([0xEE], [0xEE])],
                w_events := w_events w @ [(txHash tx @ FromInt64 1, bytes_of_string ''called'')],
                w_dpos := (w_dpos w)\<lparr>voteTrie := [([0x01], [0x02])]\<rparr>\<rparr>)
      else (None, w))"

definition demo_env :: externals where
  "demo_env =
     \<lparr>sha3_256 = (\<lambda>bs. of_nat (length bs) # bs),
      trieRoot = (\<lambda>t. concat (map (\<lambda>kv. fst kv @ snd kv) t)),
      accRoot = (\<lambda>s. concat (map (\<lambda>e. fst e @ FromUint64 (accNonce (snd e))
                                       @ FromUint64 (of_nat (accBalance (snd e)))) s)),
      DynastyInterval = 3600,
      txVerifyExecution = demo_vm,
      txMarshal = (\<lambda>tx. Inr (txHash tx)),
      jsonTx = (\<lambda>tx. ''tx''),
      jsonBlock = (\<lambda>b. ''block''),
      jsonEvent = (\<lambda>e. Inr (bytes_of_string (Topic e))),
      jsonUnmarshalEvent = (\<lambda>bs. Inr \<lparr>Topic = string_of_bytes bs, Data = []\<rparr>),
      consensusVerifyBlock = (\<lambda>b p. None),
      accClone = (\<lambda>a. (a\<lparr>saved := None\<rparr>, None)),
      trieClone = (\<lambda>t. (t\<lparr>saved := None\<rparr>, None)),
      dposClone = (\<lambda>d. (d\<lparr>saved := None\<rparr>, None)),
      NextDynastyContext = (\<lambda>b e. Inr (cur (dposContext b))),
      LoadDynastyContext = (\<lambda>b d. (None, b\<lparr>dposContext := \<lparr>cur = d, saved = None\<rparr>\<rparr>)),
      poolSenderNonce = (\<lambda>a. 0)\<rparr>"

definition demo_parent :: Block where
  "demo_parent =
     \<lparr>header =
        \<lparr>hash = [0x50], parentHash = [], stateRoot = [], txsRoot = [], eventsRoot = [],
         dposContextPb =
           Some \<lparr>DynastyRoot = [], NextDynastyRoot = [], DelegateRoot = [],
                 VoteRoot = [], CandidateRoot = [], MintCntRoot = []\<rparr>,
         coinbase = [0xC0], nonce = 0, timestamp = 7200, chainID = 1, alg = 0, sign = []\<rparr>,
      transactions = [], sealed = True, height = 0, parenetBlock = None,
      accState = \<lparr>cur = [], saved = None\<rparr>,
      txsTrie = \<lparr>cur = [], saved = None\<rparr>,
      eventsTrie = \<lparr>cur = [], saved = None\<rparr>,
      dposContext =
        \<lparr>cur = \<lparr>dynastyTrie = [], nextDynastyTrie = [], delegateTrie = [], voteTrie = [],
                candidateTrie = [], mintCntTrie = []\<rparr>,
         saved = None\<rparr>,
      txPool = 0, miner = None, storage = 0, eventEmitter = 0\<rparr>"

text \<open>A block on top of demo_parent, as NewBlock makes it, with its miner set.\<close>

definition demo_block :: Block where
  "demo_block =
     (case NewBlock demo_env 1 [0xC0] demo_parent 7205 of
        Inr b \<Rightarrow> SetMiner b (Some [0xAB])
      | Inl e \<Rightarrow> demo_parent)"

definition demo_deploy :: Transaction where
  "demo_deploy = \<lparr>txHash = [0xD1], txFrom = [0xA1], txNonce = 1, txType = TxPayloadDeployType\<rparr>"

definition demo_call :: Transaction where
  "demo_call = \<lparr>txHash = [0xD2], txFrom = [0xA3], txNonce = 1, txType = TxPayloadCallType\<rparr>"

definition demo_transfer :: Transaction where
  "demo_transfer = \<lparr>txHash = [0xD3], txFrom = [0xA2], txNonce = 1, txType = TxPayloadBinaryType\<rparr>"

definition demo_dup :: Block where
  "demo_dup = demo_block\<lparr>txsTrie := \<lparr>cur = [([0xD1], [0x00])], saved = None\<rparr>\<rparr>"

text \<open>A service on chain 100 with network mask 3 and one peer, peerA, whose cached mask is 4.\<close>

definition demo_ns :: NetService where
  "demo_ns =
     \<lparr>node =
        \<lparr>id = [0x01],
         config = \<lparr>ConfigChainID = 100, ConfigNetworkID = 3\<rparr>,
         version = 0,
         stream = [''peerA'' \<mapsto> \<lparr>key = ''peerA'', conn = 1, ss_stream = 0\<rparr>],
         streamCache = [\<lparr>key = ''peerA'', conn = 1, ss_stream = 0\<rparr>],
         peerstore = (\<lambda>p. []),
         routeTable = [],
         networkIDCache = [''peerA'' \<mapsto> 4],
         bootIds = []\<rparr>,
      streams = [0 \<mapsto> \<lparr>inbound = [], outbound = [], closed = False\<rparr>],
      packetOut = 0\<rparr>"

text \<open>
  The condition of the OK handshake in the spec's words: the payload decodes, its NodeID is
  the stream's remote peer id as printed and its ClientVersion is the local one.
\<close>

definition ok_matches :: "net_externals \<Rightarrow> bytes \<Rightarrow> peer_id \<Rightarrow> bool" where
  "ok_matches ext d pid =
     (case protoUnmarshalHello ext d of
        Inl err \<Rightarrow> False
      | Inr pb \<Rightarrow>
          (case helloFromProto ext pb of
             Inl err \<Rightarrow> False
           | Inr ok \<Rightarrow> NodeID ok = pidString ext pid \<and> HelloClientVersion ok = ClientVersion))"

text \<open>A decoder that knows two payloads, [1] from peerA and [2] from peerB.\<close>

definition demo_ext :: net_externals where
  "demo_ext =
     \<lparr>pidString = (\<lambda>p. if p = [0x0A] then ''peerA'' else ''other''),
      pidPretty = (\<lambda>p. if p = [0x0A] then ''peerA'' else ''other''),
      protoUnmarshalHello =
        (\<lambda>d. if d = [1] then Inr \<lparr>NodeID = ''peerA'', HelloClientVersion = ''0.2.0''\<rparr>
              else if d = [2] then Inr \<lparr>NodeID = ''peerB'', HelloClientVersion = ''0.2.0''\<rparr>
              else Inl ErrDecode),
      helloFromProto = (\<lambda>pb. Inr pb)\<rparr>"

text \<open>
  No batch is open on any of the four overlays: the state in which NewBlock returns a
  block, and in which Seal, VerifyExecution and each iteration of CollectTransactions leave
  it when they return, having answered every begin with a commit or a rollback. Only a
  panic leaves a batch open.
\<close>

definition no_batch_open :: "Block \<Rightarrow> bool" where
  "no_batch_open block =
     (saved (accState block) = None \<and> saved (txsTrie block) = None
      \<and> saved (eventsTrie block) = None \<and> saved (dposContext block) = None)"

text \<open>The states the loop of CollectTransactions passes through, from its entry s0.\<close>

inductive collect_reach :: "externals \<Rightarrow> collect_state \<Rightarrow> collect_state \<Rightarrow> bool"
  for env :: externals and s0 :: collect_state where
  reach_start: "collect_reach env s0 s0"
| reach_step: "collect_reach env s0 s \<Longrightarrow> collect_guard s \<Longrightarrow> collect_reach env s0 (collect_body env s)"

text \<open>b1 differs from b at most in the current contents of the four overlays.\<close>

definition writes_cur_only :: "Block \<Rightarrow> Block \<Rightarrow> bool" where
  "writes_cur_only b b1 =
     (saved (accState b1) = saved (accState b) \<and> saved (txsTrie b1) = saved (txsTrie b)
      \<and> saved (eventsTrie b1) = saved (eventsTrie b) \<and> saved (dposContext b1) = saved (dposContext b)
      \<and> b1\<lparr>accState := accState b, txsTrie := txsTrie b, eventsTrie := eventsTrie b,
            dposContext := dposContext b\<rparr> = b)"

text \<open>
  A run of the loop on the pool [demo_deploy, demo_call]: the block after the first
  iteration, and the block the executor leaves when demo_call fails in the second.
\<close>

definition demo_after_deploy :: Block where
  "demo_after_deploy = fst (collect_body demo_env (demo_block, [demo_deploy, demo_call], [], 5))"

definition demo_failed_call :: Block where
  "demo_failed_call = snd (snd (executeTransaction demo_env (begin_block demo_after_deploy) demo_call))"

text \<open>
  The block of that run sealed by its miner, and the same block as a peer holds it after
  LinkParentBlock: header and transactions as sealed, overlays cloned from the parent.
\<close>

definition demo_sealed :: Block where
  "demo_sealed = snd (Seal demo_env demo_after_deploy)"

definition demo_received :: Block where
  "demo_received = snd (LinkParentBlock demo_env demo_sealed demo_parent)"

text \<open>
  A block header as it arrives without the field dpos_context, and the block that
  FromProto makes of it: header.dposContext is the nil pointer.
\<close>

definition demo_wire_header :: pb_BlockHeader where
  "demo_wire_header =
     \<lparr>pb_Hash = [0x77], pb_ParentHash = [0x50], pb_StateRoot = [], pb_TxsRoot = [],
      pb_EventsRoot = [], pb_DposContext = None, pb_Nonce = 0, pb_Coinbase = [0xC0],
      pb_Timestamp = 7205, pb_ChainId = 1, pb_Alg = 0, pb_Sign = []\<rparr>"

definition demo_wire_block :: Block where
  "demo_wire_block = demo_parent\<lparr>header := BlockHeader_FromProto demo_wire_header, height := 1\<rparr>"

text \<open>
  The twelve bytes 12..24 of the header as buildHeader leaves them for a message name: the
  name's first twelve bytes, padded with NUL when it is shorter.
\<close>

definition name_field :: "string \<Rightarrow> bytes" where
  "name_field name = take 12 (bytes_of_string name @ replicate (12 - length name) 0)"

text \<open>The Protocol that parse makes of the frame buildData builds for a payload and a name.\<close>

definition frame_protocol :: "NetService \<Rightarrow> bytes \<Rightarrow> string \<Rightarrow> Protocol" where
  "frame_protocol ns d name =
     (let metaHeader = buildHeader (ConfigChainID (config (node ns))) name (version (node ns))
                         (of_nat (length d)) (ChecksumIEEE d) [0]
      in \<lparr>magicNumber = MagicNumber,
          protoChainID = FromUint32 (ConfigChainID (config (node ns))),
          protoVersion = version (node ns),
          msgName = parse_name (name_field name),
          dataLength = FromUint32 (of_nat (length d)),
          dataChecksum = FromUint32 (ChecksumIEEE d),
          headerChecksum = FromUint32 (ChecksumIEEE metaHeader),
          dataHeader = metaHeader,
          data = d,
          reserved = [0, 0, 0]\<rparr>)"

text \<open>What a parse recovered: message name and payload, when it succeeded.\<close>

definition parsed :: "(net_error + Protocol) \<times> Stream \<Rightarrow> (string \<times> bytes) option" where
  "parsed r = (case fst r of Inl err \<Rightarrow> None | Inr p \<Rightarrow> Some (msgName p, data p))"

text \<open>A payload of 2^32 bytes: its length does not fit the header's Data Length.\<close>

definition huge_payload :: bytes where
  "huge_payload = replicate (2 ^ 32) 0"

section \<open>Lemmas on the codecs\<close>

lemmas core_defs = demo_block_def demo_parent_def demo_env_def demo_vm_def NewBlock_def SetMiner_def
  begin_block_def commit_def rollback_def BeginBatch_def Commit_def RollBack_def rewardCoinbase_def
  AddBalance_def IncrNonce_def GetOrCreateUserAccount_def BlockReward_def Seal_def recordMintCnt_def
  put_mintCnt_def trie_Get_def trie_Put_def trie_Prove_def trie_Iterator_def go_div64_def
  FromInt64_def FromUint64_def FromUint32_def HashBlock_def DposContextHash_def hasher_Write_def
  hasher_Sum_def DposContext_ToProto_def Int64_def be64_def LinkParentBlock_def Let_def

lemma length_FromUint32: "length (FromUint32 w) = 4"
  by (simp add: FromUint32_def)

lemma length_FromUint64: "length (FromUint64 w) = 8"
  by (simp add: FromUint64_def)

lemma unat_byte_of:
  "unat (ucast (drop_bit k (w :: 'a::len word)) :: byte) = (unat w div 2 ^ k) mod 256"
  apply (simp only: unsigned_ucast_eq unat_drop_bit_eq)
  apply (simp add: drop_bit_eq_div take_bit_eq_mod)
  done

lemma horner_step: "(n div (256 * m)) * 256 + (n div m) mod 256 = (n :: nat) div m"
  by (metis div_mult2_eq div_mult_mod_eq mult.commute)

lemma be_value_snoc: "be_value (bs @ [b]) = be_value bs * 256 + unat b"
  by (simp add: be_value_def)

lemma be_step:
  "be_value bs = unat w div 2 ^ (k + 8) \<Longrightarrow>
   be_value (bs @ [ucast (drop_bit k w)]) = unat w div 2 ^ k"
  using horner_step [of "unat w" "2 ^ k"]
  by (simp add: be_value_snoc unat_byte_of power_add mult.commute)

lemma be_value_FromUint32: "be_value (FromUint32 w) = unat w"
proof -
  have "unat w < 2 ^ 32" by (rule order_less_le_trans [OF unsigned_less]) simp
  then have s0: "be_value [] = unat w div 2 ^ (24 + 8)" by (simp add: be_value_def)
  have s1: "be_value [ucast (drop_bit 24 w)] = unat w div 2 ^ 24"
    using be_step [of "[]" w 24] s0 by simp
  have s2: "be_value [ucast (drop_bit 24 w), ucast (drop_bit 16 w)] = unat w div 2 ^ 16"
    using be_step [of "[ucast (drop_bit 24 w)]" w 16] s1 by simp
  have s3: "be_value [ucast (drop_bit 24 w), ucast (drop_bit 16 w), ucast (drop_bit 8 w)]
              = unat w div 2 ^ 8"
    using be_step [of "[ucast (drop_bit 24 w), ucast (drop_bit 16 w)]" w 8] s2 by simp
  have s4: "be_value [ucast (drop_bit 24 w), ucast (drop_bit 16 w), ucast (drop_bit 8 w),
                      ucast (drop_bit 0 w)] = unat w div 2 ^ 0"
    using be_step [of "[ucast (drop_bit 24 w), ucast (drop_bit 16 w), ucast (drop_bit 8 w)]" w 0] s3
    by simp
  from s4 show ?thesis by (simp add: FromUint32_def)
qed

lemma be_value_FromUint64: "be_value (FromUint64 w) = unat w"
proof -
  have "unat w < 2 ^ 64" by (rule order_less_le_trans [OF unsigned_less]) simp
  then have s0: "be_value [] = unat w div 2 ^ (56 + 8)" by (simp add: be_value_def)
  have s1: "be_value [ucast (drop_bit 56 w)] = unat w div 2 ^ 56"
    using be_step [of "[]" w 56] s0 by simp
  have s2: "be_value [ucast (drop_bit 56 w), ucast (drop_bit 48 w)] = unat w div 2 ^ 48"
    using be_step [of "[ucast (drop_bit 56 w)]" w 48] s1 by simp
  have s3: "be_value [ucast (drop_bit 56 w), ucast (drop_bit 48 w), ucast (drop_bit 40 w)]
              = unat w div 2 ^ 40"
    using be_step [of "[ucast (drop_bit 56 w), ucast (drop_bit 48 w)]" w 40] s2 by simp
  have s4: "be_value [ucast (drop_bit 56 w), ucast (drop_bit 48 w), ucast (drop_bit 40 w),
                      ucast (drop_bit 32 w)] = unat w div 2 ^ 32"
    using be_step [of "[ucast (drop_bit 56 w), ucast (drop_bit 48 w), ucast (drop_bit 40 w)]" w 32] s3
    by simp
  have s5: "be_value [ucast (drop_bit 56 w), ucast (drop_bit 48 w), ucast (drop_bit 40 w),
                      ucast (drop_bit 32 w), ucast (drop_bit 24 w)] = unat w div 2 ^ 24"
    using be_step [of "[ucast (drop_bit 56 w), ucast (drop_bit 48 w), ucast (drop_bit 40 w),
                        ucast (drop_bit 32 w)]" w 24] s4
    by simp
  have s6: "be_value [ucast (drop_bit 56 w), ucast (drop_bit 48 w), ucast (drop_bit 40 w),
                      ucast (drop_bit 32 w), ucast (drop_bit 24 w), ucast (drop_bit 16 w)]
              = unat w div 2 ^ 16"
    using be_step [of "[ucast (drop_bit 56 w), ucast (drop_bit 48 w), ucast (drop_bit 40 w),
                        ucast (drop_bit 32 w), ucast (drop_bit 24 w)]" w 16] s5
    by simp
  have s7: "be_value [ucast (drop_bit 56 w), ucast (drop_bit 48 w), ucast (drop_bit 40 w),
                      ucast (drop_bit 32 w), ucast (drop_bit 24 w), ucast (drop_bit 16 w),
                      ucast (drop_bit 8 w)] = unat w div 2 ^ 8"
    using be_step [of "[ucast (drop_bit 56 w), ucast (drop_bit 48 w), ucast (drop_bit 40 w),
                        ucast (drop_bit 32 w), ucast (drop_bit 24 w), ucast (drop_bit 16 w)]" w 8] s6
    by simp
  have s8: "be_value [ucast (drop_bit 56 w), ucast (drop_bit 48 w), ucast (drop_bit 40 w),
                      ucast (drop_bit 32 w), ucast (drop_bit 24 w), ucast (drop_bit 16 w),
                      ucast (drop_bit 8 w), ucast (drop_bit 0 w)] = unat w div 2 ^ 0"
    using be_step [of "[ucast (drop_bit 56 w), ucast (drop_bit 48 w), ucast (drop_bit 40 w),
                        ucast (drop_bit 32 w), ucast (drop_bit 24 w), ucast (drop_bit 16 w),
                        ucast (drop_bit 8 w)]" w 0] s7
    by simp
  from s8 show ?thesis by (simp add: FromUint64_def)
qed

lemma foldl_hasher_Write:
  "foldl (\<lambda>h tx. h @ txHash tx) h txs = h @ concat (map txHash txs)"
  by (induction txs arbitrary: h) simp_all

section \<open>The block hash\<close>

text \<open>
  C1, amended: for every block whose header has a DPoS context (header.dposContext is not
  nil), HashBlock returns the SHA3-256 digest of parent hash, state root, txs root, events
  root, DPoS context hash, nonce, coinbase, timestamp, chain id and the transaction hashes
  in order, concatenated; the DPoS context hash is the digest of the six sub-roots
  concatenated; nonce and timestamp are written as eight bytes and the chain id as four,
  most significant byte first (the timestamp as its two's complement word).
\<close>

theorem HashBlock_digest:
  "dposContextPb (header block) = Some d \<Longrightarrow>
   HashBlock env block =
     Inr (sha3_256 env
       (parentHash (header block) @ stateRoot (header block) @ txsRoot (header block)
        @ eventsRoot (header block)
        @ sha3_256 env
            (DynastyRoot d @ NextDynastyRoot d @ DelegateRoot d @ VoteRoot d
             @ CandidateRoot d @ MintCntRoot d)
        @ FromUint64 (nonce (header block)) @ coinbase (header block)
        @ FromInt64 (timestamp (header block)) @ FromUint32 (chainID (header block))
        @ concat (map txHash (transactions block))))
   \<and> DposContextHash env block =
     Inr (sha3_256 env
       (DynastyRoot d @ NextDynastyRoot d @ DelegateRoot d @ VoteRoot d
        @ CandidateRoot d @ MintCntRoot d))
   \<and> length (FromUint64 (nonce (header block))) = 8
   \<and> be_value (FromUint64 (nonce (header block))) = unat (nonce (header block))
   \<and> length (FromInt64 (timestamp (header block))) = 8
   \<and> be_value (FromInt64 (timestamp (header block))) = unat (timestamp (header block))
   \<and> length (FromUint32 (chainID (header block))) = 4
   \<and> be_value (FromUint32 (chainID (header block))) = unat (chainID (header block))"
proof -
  assume c: "dposContextPb (header block) = Some d"
  have d: "DposContextHash env block =
     Inr (sha3_256 env
       (DynastyRoot d @ NextDynastyRoot d @ DelegateRoot d @ VoteRoot d
        @ CandidateRoot d @ MintCntRoot d))"
    by (simp add: DposContextHash_def c Let_def hasher_Write_def hasher_Sum_def)
  have h: "HashBlock env block =
     Inr (sha3_256 env
       (parentHash (header block) @ stateRoot (header block) @ txsRoot (header block)
        @ eventsRoot (header block)
        @ sha3_256 env
            (DynastyRoot d @ NextDynastyRoot d @ DelegateRoot d @ VoteRoot d
             @ CandidateRoot d @ MintCntRoot d)
        @ FromUint64 (nonce (header block)) @ coinbase (header block)
        @ FromInt64 (timestamp (header block)) @ FromUint32 (chainID (header block))
        @ concat (map txHash (transactions block))))"
    by (simp add: HashBlock_def d Let_def hasher_Write_def hasher_Sum_def foldl_hasher_Write)
  show ?thesis
    using h d
    by (simp only: length_FromUint32 length_FromUint64 be_value_FromUint32 be_value_FromUint64
          FromInt64_def simp_thms)
qed

theorem HashBlock_digest_witness:
  "dposContextPb (header demo_block)
     = Some \<lparr>DynastyRoot = [], NextDynastyRoot = [], DelegateRoot = [],
             VoteRoot = [], CandidateRoot = [], MintCntRoot = []\<rparr>
   \<and> HashBlock demo_env demo_block =
       Inr (sha3_256 demo_env
         (parentHash (header demo_block) @ stateRoot (header demo_block) @ txsRoot (header demo_block)
          @ eventsRoot (header demo_block) @ sha3_256 demo_env []
          @ FromUint64 (nonce (header demo_block)) @ coinbase (header demo_block)
          @ FromInt64 (timestamp (header demo_block)) @ FromUint32 (chainID (header demo_block))
          @ concat (map txHash (transactions demo_block))))
   \<and> DposContextHash demo_env demo_block = Inr (sha3_256 demo_env [])"
proof -
  have c: "dposContextPb (header demo_block)
     = Some \<lparr>DynastyRoot = [], NextDynastyRoot = [], DelegateRoot = [],
             VoteRoot = [], CandidateRoot = [], MintCntRoot = []\<rparr>"
    by (simp add: demo_block_def demo_parent_def demo_env_def NewBlock_def SetMiner_def
          begin_block_def commit_def rewardCoinbase_def)
  from c HashBlock_digest [OF c, of demo_env] show ?thesis by simp
qed

text \<open>
  The claim as stated fails on demo_wire_block, a block decoded from a header without
  dpos_context: DposContextHash dereferences the nil pointer and HashBlock panics.
\<close>

theorem HashBlock_nil_dposContext_panics:
  "dposContextPb (header demo_wire_block) = None
   \<and> DposContextHash demo_env demo_wire_block = Inl ''nil pointer dereference''
   \<and> HashBlock demo_env demo_wire_block = Inl ''nil pointer dereference''"
  by (simp add: demo_wire_block_def demo_wire_header_def BlockHeader_FromProto_def
        HashBlock_def DposContextHash_def Let_def)

section \<open>Setters and the sealed flag\<close>

text \<open>
  C10: for every block, sealed or not, SetMiner m sets the miner to m and changes nothing
  else: restoring the miner gives the block back, and header, transactions, sealed flag and
  height are as before. SetMiner does not look at the sealed flag.
\<close>

theorem SetMiner_frame:
  "miner (SetMiner block m) = m
   \<and> (SetMiner block m)\<lparr>miner := miner block\<rparr> = block
   \<and> header (SetMiner block m) = header block
   \<and> transactions (SetMiner block m) = transactions block
   \<and> sealed (SetMiner block m) = sealed block
   \<and> height (SetMiner block m) = height block"
  by (simp add: SetMiner_def)

lemma Seal_nil_miner_panics:
  "\<not> sealed block \<Longrightarrow> DynastyInterval env \<noteq> 0 \<Longrightarrow> miner block = None \<Longrightarrow>
   Seal env block = (Panicked ''nil pointer dereference'', begin_block block)"
  by (simp add: Seal_def recordMintCnt_def begin_block_def)

lemma Seal_returned_closes:
  "Seal env block = (Returned err, block1) \<Longrightarrow> no_batch_open block \<Longrightarrow> no_batch_open block1"
  by (auto simp: Seal_def Let_def no_batch_open_def commit_def Commit_def rollback_def RollBack_def
           split: if_splits prod.splits status.splits option.splits sum.splits)

lemma NewBlock_closes:
  "NewBlock env chain cb parent now = Inr block \<Longrightarrow> no_batch_open block"
  by (auto simp: NewBlock_def Let_def no_batch_open_def commit_def Commit_def
           split: prod.splits option.splits)

text \<open>
  C4: on a sealed block SetNonce and SetTimestamp change nothing, and Seal returns
  ErrDoubleSealBlock and changes nothing.
\<close>

theorem sealed_block_immutable:
  "sealed block \<Longrightarrow>
   SetNonce block n = block \<and> SetTimestamp block ts = block
   \<and> Seal env block = (Returned (Some ErrDoubleSealBlock), block)"
  by (simp add: SetNonce_def SetTimestamp_def Seal_def)

theorem sealed_block_immutable_witness:
  "fst (Seal demo_env demo_block) = Returned None
   \<and> sealed (snd (Seal demo_env demo_block))
   \<and> SetNonce (snd (Seal demo_env demo_block)) 7 = snd (Seal demo_env demo_block)
   \<and> SetTimestamp (snd (Seal demo_env demo_block)) 9 = snd (Seal demo_env demo_block)
   \<and> Seal demo_env (snd (Seal demo_env demo_block))
       = (Returned (Some ErrDoubleSealBlock), snd (Seal demo_env demo_block))"
proof -
  have f: "fst (Seal demo_env demo_block) = Returned None" by (simp add: core_defs)
  have s: "sealed (snd (Seal demo_env demo_block))" by (simp add: core_defs)
  show ?thesis using f s sealed_block_immutable [OF s, of 7 9 demo_env] by simp
qed

section \<open>Admission of a transaction\<close>

text \<open>
  C3: for a transaction checked for inclusion: if the txs trie has a proof for its hash the
  result is (giveback = false, ErrDuplicatedTransaction); otherwise if its nonce is below
  the sender's nonce plus one it is (false, ErrSmallTransactionNonce); otherwise if it is
  above, (true, ErrLargeTransactionNonce); in these three cases executeTransaction returns
  what the check returned. Otherwise the check passes and executeTransaction goes on to
  the executor and to acceptTransaction. The nonces are uint64, as in the code.
\<close>

theorem checkTransaction_cases:
  "(trie_Prove (cur (txsTrie block)) (txHash tx) \<noteq> None \<longrightarrow>
       (fst (checkTransaction block tx), fst (snd (checkTransaction block tx)))
         = (False, Some ErrDuplicatedTransaction)
       \<and> executeTransaction env block tx = checkTransaction block tx)
 \<and> (trie_Prove (cur (txsTrie block)) (txHash tx) = None \<longrightarrow>
       txNonce tx < accNonce (fst (GetOrCreateUserAccount (cur (accState block)) (txFrom tx))) + 1 \<longrightarrow>
       (fst (checkTransaction block tx), fst (snd (checkTransaction block tx)))
         = (False, Some ErrSmallTransactionNonce)
       \<and> executeTransaction env block tx = checkTransaction block tx)
 \<and> (trie_Prove (cur (txsTrie block)) (txHash tx) = None \<longrightarrow>
       \<not> txNonce tx < accNonce (fst (GetOrCreateUserAccount (cur (accState block)) (txFrom tx))) + 1 \<longrightarrow>
       txNonce tx > accNonce (fst (GetOrCreateUserAccount (cur (accState block)) (txFrom tx))) + 1 \<longrightarrow>
       (fst (checkTransaction block tx), fst (snd (checkTransaction block tx)))
         = (True, Some ErrLargeTransactionNonce)
       \<and> executeTransaction env block tx = checkTransaction block tx)
 \<and> (trie_Prove (cur (txsTrie block)) (txHash tx) = None \<longrightarrow>
       txNonce tx = accNonce (fst (GetOrCreateUserAccount (cur (accState block)) (txFrom tx))) + 1 \<longrightarrow>
       (fst (checkTransaction block tx), fst (snd (checkTransaction block tx))) = (False, None)
       \<and> executeTransaction env block tx =
           (case txVerifyExecution env tx (get_world (snd (snd (checkTransaction block tx)))) of
              (Some err, w) \<Rightarrow> (False, Some err, set_world (snd (snd (checkTransaction block tx))) w)
            | (None, w) \<Rightarrow>
                (case acceptTransaction env (set_world (snd (snd (checkTransaction block tx))) w) tx of
                   (err, block2) \<Rightarrow> (False, err, block2))))"
  by (auto simp: checkTransaction_def executeTransaction_def Let_def
           split: prod.splits option.splits)

theorem checkTransaction_cases_witness:
  "trie_Prove (cur (txsTrie demo_dup)) (txHash demo_deploy) \<noteq> None
   \<and> (fst (checkTransaction demo_dup demo_deploy), fst (snd (checkTransaction demo_dup demo_deploy)))
        = (False, Some ErrDuplicatedTransaction)
   \<and> (fst (checkTransaction demo_block (demo_deploy\<lparr>txNonce := 0\<rparr>)),
        fst (snd (checkTransaction demo_block (demo_deploy\<lparr>txNonce := 0\<rparr>))))
        = (False, Some ErrSmallTransactionNonce)
   \<and> (fst (checkTransaction demo_block (demo_deploy\<lparr>txNonce := 3\<rparr>)),
        fst (snd (checkTransaction demo_block (demo_deploy\<lparr>txNonce := 3\<rparr>))))
        = (True, Some ErrLargeTransactionNonce)
   \<and> (fst (checkTransaction demo_block demo_deploy), fst (snd (checkTransaction demo_block demo_deploy)))
        = (False, None)"
proof -
  have d: "trie_Prove (cur (txsTrie demo_dup)) (txHash demo_deploy) \<noteq> None"
    by (simp add: demo_dup_def demo_deploy_def trie_Prove_def)
  have n: "trie_Prove (cur (txsTrie demo_block)) (txHash (demo_deploy\<lparr>txNonce := k\<rparr>)) = None" for k
    by (simp add: core_defs demo_deploy_def)
  have n1: "trie_Prove (cur (txsTrie demo_block)) (txHash demo_deploy) = None"
    by (simp add: core_defs demo_deploy_def)
  have a: "accNonce (fst (GetOrCreateUserAccount (cur (accState demo_block))
                      (txFrom (demo_deploy\<lparr>txNonce := k\<rparr>)))) = 0" for k
    by (simp add: core_defs demo_deploy_def)
  have a1: "accNonce (fst (GetOrCreateUserAccount (cur (accState demo_block)) (txFrom demo_deploy))) = 0"
    by (simp add: core_defs demo_deploy_def)
  have s: "txNonce (demo_deploy\<lparr>txNonce := 0\<rparr>)
             < accNonce (fst (GetOrCreateUserAccount (cur (accState demo_block))
                          (txFrom (demo_deploy\<lparr>txNonce := 0\<rparr>)))) + 1"
    by (simp add: a a1)
  have l1: "\<not> txNonce (demo_deploy\<lparr>txNonce := 3\<rparr>)
             < accNonce (fst (GetOrCreateUserAccount (cur (accState demo_block))
                          (txFrom (demo_deploy\<lparr>txNonce := 3\<rparr>)))) + 1"
    by (simp add: a a1)
  have l2: "txNonce (demo_deploy\<lparr>txNonce := 3\<rparr>)
             > accNonce (fst (GetOrCreateUserAccount (cur (accState demo_block))
                          (txFrom (demo_deploy\<lparr>txNonce := 3\<rparr>)))) + 1"
    by (simp add: a a1)
  have e: "txNonce demo_deploy
             = accNonce (fst (GetOrCreateUserAccount (cur (accState demo_block)) (txFrom demo_deploy))) + 1"
    by (simp add: a1) (simp add: demo_deploy_def)
  note r1 = checkTransaction_cases [of demo_dup demo_deploy demo_env, THEN conjunct1, rule_format,
                OF d, THEN conjunct1]
  note r2 = checkTransaction_cases [of demo_block "demo_deploy\<lparr>txNonce := 0\<rparr>" demo_env,
                THEN conjunct2, THEN conjunct1, rule_format, OF n s, THEN conjunct1]
  note r3 = checkTransaction_cases [of demo_block "demo_deploy\<lparr>txNonce := 3\<rparr>" demo_env,
                THEN conjunct2, THEN conjunct2, THEN conjunct1, rule_format, OF n l1 l2, THEN conjunct1]
  note r4 = checkTransaction_cases [of demo_block demo_deploy demo_env, THEN conjunct2, THEN conjunct2,
                THEN conjunct2, rule_format, OF n1 e, THEN conjunct1]
  from d r1 r2 r3 r4 show ?thesis by blast
qed

section \<open>Linking the parent\<close>

text \<open>
  C8: LinkParentBlock returns ErrLinkToWrongParentBlock and leaves the block as it was
  whenever the parent's hash differs from the block's parent hash; when it returns no
  error, the hashes are equal, the block refers to the parent and its height is the
  parent's height plus one (uint64).
\<close>

theorem LinkParentBlock_parent_height:
  "(parentHash (header block) \<noteq> hash (header parentBlock) \<longrightarrow>
      LinkParentBlock env block parentBlock = (Some ErrLinkToWrongParentBlock, block))
   \<and> (LinkParentBlock env block parentBlock = (None, block') \<longrightarrow>
        parentHash (header block) = hash (header parentBlock)
        \<and> height block' = height parentBlock + 1
        \<and> parenetBlock block' = Some (hash (header parentBlock)))"
  by (auto simp: LinkParentBlock_def Let_def split: prod.splits option.splits if_splits sum.splits)

theorem LinkParentBlock_parent_height_witness:
  "parentHash (header (demo_block\<lparr>header := (header demo_block)\<lparr>parentHash := [0x99]\<rparr>\<rparr>))
     \<noteq> hash (header demo_parent)
   \<and> LinkParentBlock demo_env (demo_block\<lparr>header := (header demo_block)\<lparr>parentHash := [0x99]\<rparr>\<rparr>)
         demo_parent
       = (Some ErrLinkToWrongParentBlock,
          demo_block\<lparr>header := (header demo_block)\<lparr>parentHash := [0x99]\<rparr>\<rparr>)
   \<and> fst (LinkParentBlock demo_env demo_block demo_parent) = None
   \<and> height (snd (LinkParentBlock demo_env demo_block demo_parent)) = height demo_parent + 1"
proof -
  have a: "parentHash (header (demo_block\<lparr>header := (header demo_block)\<lparr>parentHash := [0x99]\<rparr>\<rparr>))
             \<noteq> hash (header demo_parent)"
    by (simp add: demo_parent_def)
  have b: "fst (LinkParentBlock demo_env demo_block demo_parent) = None"
    by (simp add: core_defs)
  then have c: "LinkParentBlock demo_env demo_block demo_parent
                  = (None, snd (LinkParentBlock demo_env demo_block demo_parent))"
    by (simp add: prod_eq_iff)
  note l = LinkParentBlock_parent_height
             [of demo_block demo_parent demo_env "snd (LinkParentBlock demo_env demo_block demo_parent)",
              THEN conjunct2, rule_format, OF c]
  note r = LinkParentBlock_parent_height
             [of "demo_block\<lparr>header := (header demo_block)\<lparr>parentHash := [0x99]\<rparr>\<rparr>" demo_parent demo_env,
              THEN conjunct1, rule_format, OF a]
  from a r b l show ?thesis by blast
qed

section \<open>The network-id gate\<close>

text \<open>
  C7: for a message name other than networkid and any target, unless the target has a
  cached network id whose bitwise AND with the local network id is greater than zero,
  SendMsg returns the error of the gate and the service, with every stream, is unchanged.
\<close>

theorem SendMsg_network_gate:
  "name \<noteq> NetworkID \<Longrightarrow>
   \<not> (\<exists>nid. networkIDCache (node ns) target = Some nid
          \<and> ConfigNetworkID (config (node ns)) AND nid > 0) \<Longrightarrow>
   SendMsg ns name msg target = (Some ErrNotSameNetwork, ns)"
  by (auto simp: SendMsg_def checkNetworkID_def split: option.splits)

theorem SendMsg_network_gate_witness:
  "SyncRoute \<noteq> NetworkID
   \<and> networkIDCache (node demo_ns) ''peerA'' = Some 4
   \<and> ConfigNetworkID (config (node demo_ns)) AND 4 = 0
   \<and> SendMsg demo_ns SyncRoute [] ''peerA'' = (Some ErrNotSameNetwork, demo_ns)"
proof -
  have a: "SyncRoute \<noteq> NetworkID" by (simp add: SyncRoute_def NetworkID_def)
  have c: "networkIDCache (node demo_ns) ''peerA'' = Some 4" by (simp add: demo_ns_def)
  have d: "ConfigNetworkID (config (node demo_ns)) AND 4 = 0" by (simp add: demo_ns_def)
  have b: "\<not> (\<exists>nid. networkIDCache (node demo_ns) ''peerA'' = Some nid
              \<and> ConfigNetworkID (config (node demo_ns)) AND nid > 0)"
    using c d by simp
  show ?thesis using a c d SendMsg_network_gate [OF a b, of "[]"] by simp
qed

section \<open>The OK message\<close>

lemma Bye_stream: "stream (node (Bye ext ns pid addrs s k)) k = None"
  by (simp add: Bye_def clearPeerStore_def stream_Close_def Let_def split: option.splits)

lemma Bye_closed:
  "streams ns s = Some st \<Longrightarrow> \<exists>st'. streams (Bye ext ns pid addrs s k) s = Some st' \<and> closed st'"
  by (simp add: Bye_def clearPeerStore_def stream_Close_def Let_def split: option.splits)

lemma Bye_streamCache: "streamCache (node (Bye ext ns pid addrs s k)) = streamCache (node ns)"
  by (simp add: Bye_def clearPeerStore_def stream_Close_def Let_def split: option.splits)

text \<open>
  C9: handleOkMsg returns true exactly when the OK payload decodes with the NodeID of the
  stream's remote peer and the local ClientVersion. Then the stream is stored in the
  per-peer map in state SOK, inserted into the stream cache, the address is added at
  PermanentAddrTTL, the routing table holds the peer, and no stream is touched. Otherwise
  the result is that of Bye: the per-peer map has no entry for the peer, the stream cache
  is as before and the stream is closed.
\<close>

theorem handleOkMsg_advances_iff_match:
  "fst (handleOkMsg ext ns d pid s addrs k) = ok_matches ext d pid
   \<and> (ok_matches ext d pid \<longrightarrow>
        stream (node (snd (handleOkMsg ext ns d pid s addrs k))) k
          = Some \<lparr>key = k, conn = SOK, ss_stream = s\<rparr>
        \<and> streamCache (node (snd (handleOkMsg ext ns d pid s addrs k)))
          = streamCache (node ns) @ [\<lparr>key = k, conn = SOK, ss_stream = s\<rparr>]
        \<and> map_of (peerstore (node (snd (handleOkMsg ext ns d pid s addrs k))) pid) addrs
          = Some PermanentAddrTTL
        \<and> pid \<in> set (routeTable (node (snd (handleOkMsg ext ns d pid s addrs k))))
        \<and> streams (snd (handleOkMsg ext ns d pid s addrs k)) = streams ns)
   \<and> (\<not> ok_matches ext d pid \<longrightarrow>
        snd (handleOkMsg ext ns d pid s addrs k) = Bye ext ns pid [addrs] s k
        \<and> stream (node (snd (handleOkMsg ext ns d pid s addrs k))) k = None
        \<and> streamCache (node (snd (handleOkMsg ext ns d pid s addrs k))) = streamCache (node ns)
        \<and> (\<forall>st. streams ns s = Some st \<longrightarrow>
              (\<exists>st'. streams (snd (handleOkMsg ext ns d pid s addrs k)) s = Some st' \<and> closed st')))"
proof (cases "ok_matches ext d pid")
  case True
  then show ?thesis
    by (auto simp: handleOkMsg_def ok_matches_def Let_def NewStreamStore_def streamCache_Insert_def
          peerstore_AddAddr_def routeTable_Update_def update_conv' split: sum.splits)
next
  case False
  then have "handleOkMsg ext ns d pid s addrs k = (False, Bye ext ns pid [addrs] s k)"
    by (auto simp: handleOkMsg_def ok_matches_def split: sum.splits)
  with False show ?thesis
    by (simp add: Bye_stream Bye_streamCache Bye_closed)
qed

lemmas net_defs = demo_ns_def demo_ext_def handleOkMsg_def ok_matches_def Bye_def clearPeerStore_def
  stream_Close_def NewStreamStore_def streamCache_Insert_def peerstore_AddAddr_def peerstore_SetAddrs0_def
  routeTable_Update_def routeTable_Remove_def ClientVersion_def SOK_def Let_def

theorem handleOkMsg_advances_iff_match_witness:
  "ok_matches demo_ext [1] [0x0A]
   \<and> fst (handleOkMsg demo_ext demo_ns [1] [0x0A] 0 ''addr'' ''peerA'')
   \<and> stream (node (snd (handleOkMsg demo_ext demo_ns [1] [0x0A] 0 ''addr'' ''peerA''))) ''peerA''
        = Some \<lparr>key = ''peerA'', conn = SOK, ss_stream = 0\<rparr>
   \<and> \<not> ok_matches demo_ext [2] [0x0A]
   \<and> \<not> fst (handleOkMsg demo_ext demo_ns [2] [0x0A] 0 ''addr'' ''peerA'')
   \<and> stream (node (snd (handleOkMsg demo_ext demo_ns [2] [0x0A] 0 ''addr'' ''peerA''))) ''peerA'' = None
   \<and> streams (snd (handleOkMsg demo_ext demo_ns [2] [0x0A] 0 ''addr'' ''peerA'')) 0
        = Some \<lparr>inbound = [], outbound = [], closed = True\<rparr>"
proof -
  have m: "ok_matches demo_ext [1] [0x0A]" by (simp add: demo_ext_def ok_matches_def ClientVersion_def)
  have n: "\<not> ok_matches demo_ext [2] [0x0A]" by (simp add: demo_ext_def ok_matches_def ClientVersion_def)
  note t = handleOkMsg_advances_iff_match [of demo_ext demo_ns "[1]" "[0x0A]" 0 "''addr''" "''peerA''"]
  note f = handleOkMsg_advances_iff_match [of demo_ext demo_ns "[2]" "[0x0A]" 0 "''addr''" "''peerA''"]
  have t1: "fst (handleOkMsg demo_ext demo_ns [1] [0x0A] 0 ''addr'' ''peerA'')"
    using t m by simp
  have t2: "stream (node (snd (handleOkMsg demo_ext demo_ns [1] [0x0A] 0 ''addr'' ''peerA''))) ''peerA''
        = Some \<lparr>key = ''peerA'', conn = SOK, ss_stream = 0\<rparr>"
    using t [THEN conjunct2, THEN conjunct1, rule_format, OF m] by simp
  have f1: "\<not> fst (handleOkMsg demo_ext demo_ns [2] [0x0A] 0 ''addr'' ''peerA'')"
    using f n by simp
  note f0 = f [THEN conjunct2, THEN conjunct2, rule_format, OF n]
  have f2: "stream (node (snd (handleOkMsg demo_ext demo_ns [2] [0x0A] 0 ''addr'' ''peerA''))) ''peerA'' = None"
    by (rule f0 [THEN conjunct2, THEN conjunct1])
  have f3: "streams (snd (handleOkMsg demo_ext demo_ns [2] [0x0A] 0 ''addr'' ''peerA'')) 0
        = Some \<lparr>inbound = [], outbound = [], closed = True\<rparr>"
    by (simp add: net_defs)
  from m t1 t2 n f1 f2 f3 show ?thesis by blast
qed

section \<open>Atomic inclusion in CollectTransactions\<close>

lemmas core_defs2 = core_defs collect_body_def collect_guard_def pool_Pop_def pool_least_def pool_Empty_def
  executeTransaction_def checkTransaction_def acceptTransaction_def get_world_def set_world_def
  demo_deploy_def demo_call_def demo_transfer_def demo_after_deploy_def demo_failed_call_def
  roots_def DposContext_RootHash_def no_batch_open_def


lemma writes_cur_only_refl: "writes_cur_only b b"
  by (simp add: writes_cur_only_def)

lemma writes_cur_only_trans: "writes_cur_only a b \<Longrightarrow> writes_cur_only b c \<Longrightarrow> writes_cur_only a c"
  unfolding writes_cur_only_def
  by (cases a, cases b, cases c) auto

lemma checkTransaction_writes:
  "checkTransaction b tx = (g, e, b1) \<Longrightarrow> writes_cur_only b b1"
  by (auto simp: checkTransaction_def writes_cur_only_def Let_def split: if_splits prod.splits)

lemma set_world_writes: "writes_cur_only b (set_world b w)"
  by (simp add: set_world_def writes_cur_only_def)

lemma acceptTransaction_writes:
  "acceptTransaction env b tx = (e, b1) \<Longrightarrow> writes_cur_only b b1"
  by (auto simp: acceptTransaction_def writes_cur_only_def trie_Put_def split: sum.splits)

lemma executeTransaction_writes:
  "executeTransaction env b tx = (g, e, b1) \<Longrightarrow> writes_cur_only b b1"
  unfolding executeTransaction_def
  by (auto split: prod.splits option.splits
      dest!: checkTransaction_writes acceptTransaction_writes)
     (blast intro: writes_cur_only_trans set_world_writes)+

lemma rollback_restores:
  "no_batch_open b \<Longrightarrow> writes_cur_only (begin_block b) b1 \<Longrightarrow> rollback b1 = b"
  unfolding no_batch_open_def writes_cur_only_def begin_block_def rollback_def BeginBatch_def RollBack_def
  by (cases b, cases b1) auto

lemma rollback_closes: "no_batch_open (rollback b)"
  by (simp add: no_batch_open_def rollback_def RollBack_def split: option.splits)

lemma commit_closes: "no_batch_open (commit b)"
  by (simp add: no_batch_open_def commit_def Commit_def)

lemma collect_body_closes:
  "no_batch_open (fst s) \<Longrightarrow> no_batch_open (fst (collect_body env s))"
  by (auto simp: collect_body_def Let_def no_batch_open_def commit_def Commit_def rollback_def RollBack_def
           split: prod.splits option.splits)

lemma collect_reach_closed:
  "collect_reach env s0 s \<Longrightarrow> no_batch_open (fst s0) \<Longrightarrow> no_batch_open (fst s)"
  by (induction rule: collect_reach.induct) (auto intro: collect_body_closes)

text \<open>
  C2: in CollectTransactions, started on a block with no batch open, for every transaction
  popped by the loop whose executeTransaction returns an error, the block after the
  rollback of that iteration is the block before its begin: the four root hashes (account
  state, txs trie, events trie, DPoS context) are equal to their values before the begin,
  whatever the transaction wrote before failing.
\<close>

theorem failing_transaction_rolled_back:
  assumes "no_batch_open block0"
    and "collect_reach env (block0, p0, [], n0) (block, p, givebacks, n)"
    and "collect_guard (block, p, givebacks, n)"
    and "pool_Pop p = Some (tx, p1)"
    and "executeTransaction env (begin_block block) tx = (giveback, Some err, block1)"
  shows "fst (collect_body env (block, p, givebacks, n)) = rollback block1
         \<and> roots env (rollback block1) = roots env block
         \<and> rollback block1 = block"
proof -
  have c: "no_batch_open block"
    using collect_reach_closed [OF assms(2)] assms(1) by simp
  have w: "writes_cur_only (begin_block block) block1"
    using assms(5) by (rule executeTransaction_writes)
  have r: "rollback block1 = block"
    using c w by (rule rollback_restores)
  have b: "fst (collect_body env (block, p, givebacks, n)) = rollback block1"
    using assms(4,5) by (simp add: collect_body_def Let_def)
  from r b show ?thesis by simp
qed


theorem failing_transaction_rolled_back_witness:
  "no_batch_open demo_block
   \<and> collect_body demo_env (demo_block, [demo_deploy, demo_call], [], 5)
       = (demo_after_deploy, [demo_call], [], 4)
   \<and> transactions demo_after_deploy = [demo_deploy]
   \<and> executeTransaction demo_env (begin_block demo_after_deploy) demo_call
       = (False, Some (ErrExternal ''execution failed''), demo_failed_call)
   \<and> roots demo_env demo_failed_call \<noteq> roots demo_env demo_after_deploy
   \<and> fst (collect_body demo_env (demo_after_deploy, [demo_call], [], 4)) = rollback demo_failed_call
   \<and> roots demo_env (rollback demo_failed_call) = roots demo_env demo_after_deploy
   \<and> rollback demo_failed_call = demo_after_deploy"
proof -
  have n: "no_batch_open demo_block"
    by (simp add: core_defs2)
  have g0: "collect_guard (demo_block, [demo_deploy, demo_call], [], 5)"
    by (simp add: collect_guard_def pool_Empty_def)
  have e1: "collect_body demo_env (demo_block, [demo_deploy, demo_call], [], 5)
              = (demo_after_deploy, [demo_call], [], 4)"
    unfolding demo_after_deploy_def by (simp add: prod_eq_iff) (simp add: core_defs2)
  have t: "transactions demo_after_deploy = [demo_deploy]"
    by (simp add: core_defs2)
  have r1: "collect_reach demo_env (demo_block, [demo_deploy, demo_call], [], 5)
              (demo_after_deploy, [demo_call], [], 4)"
    using reach_step [OF reach_start g0, of demo_env] by (simp only: e1)
  have g1: "collect_guard (demo_after_deploy, [demo_call], [], 4)"
    by (simp add: collect_guard_def pool_Empty_def)
  have pp: "pool_Pop [demo_call] = Some (demo_call, [])"
    by (simp add: pool_Pop_def pool_least_def)
  have x: "fst (executeTransaction demo_env (begin_block demo_after_deploy) demo_call) = False
           \<and> fst (snd (executeTransaction demo_env (begin_block demo_after_deploy) demo_call))
               = Some (ErrExternal ''execution failed'')"
    by (simp add: core_defs2)
  then have ex: "executeTransaction demo_env (begin_block demo_after_deploy) demo_call
       = (False, Some (ErrExternal ''execution failed''), demo_failed_call)"
    unfolding demo_failed_call_def by (simp add: prod_eq_iff)
  have d: "roots demo_env demo_failed_call \<noteq> roots demo_env demo_after_deploy"
    by (simp add: core_defs2)
  note c = failing_transaction_rolled_back [OF n r1 g1 pp ex]
  from n e1 t ex d c show ?thesis by blast
qed

section \<open>Strings as bytes\<close>

lemma unat_of_char: "unat (of_char c :: byte) = of_char c"
proof -
  have "(of_char c :: byte) = of_nat (of_char c)" by (simp add: of_nat_of_char)
  then have "unat (of_char c :: byte) = (of_char c :: nat) mod 256"
    by (simp add: unat_of_nat)
  then show ?thesis by (simp add: of_char_mod_256)
qed

lemma char_roundtrip: "char_of (unat (of_char c :: byte)) = c"
  by (simp add: unat_of_char)

lemma string_of_bytes_of_string: "string_of_bytes (bytes_of_string s) = s"
  by (induction s) (simp_all add: string_of_bytes_def bytes_of_string_def char_roundtrip)

lemma of_char_zero: "(of_char c :: byte) = 0 \<longleftrightarrow> c = CHR 0x00"
proof
  assume "(of_char c :: byte) = 0"
  then have "unat (of_char c :: byte) = 0" by simp
  then have "(of_char c :: nat) = of_char (CHR 0x00)" by (simp add: unat_of_char)
  then show "c = CHR 0x00" by (simp only: of_char_eq_iff)
next
  assume "c = CHR 0x00" then show "(of_char c :: byte) = 0" by simp
qed


section \<open>Events released by VerifyExecution\<close>

lemma fetch_loop_error: "fetch_loop env es evs = (r, Some e) \<Longrightarrow> r = []"
  by (induction es arbitrary: evs) (auto split: sum.splits)

lemma FetchEvents_error: "FetchEvents env b h = (r, Some e) \<Longrightarrow> r = []"
  by (auto simp: FetchEvents_def split: sum.splits if_splits dest: fetch_loop_error)

lemma trigger_tx_publishes:
  "trigger_tx env block emitter v = emitter @ [\<lparr>Topic = tx_topic v, Data = jsonTx env v\<rparr>]"
  by (auto simp: trigger_tx_def Let_def Trigger_def split: prod.splits dest: FetchEvents_error)

lemma foldl_trigger_tx:
  "foldl (trigger_tx env block) emitter txs
     = emitter @ map (\<lambda>v. \<lparr>Topic = tx_topic v, Data = jsonTx env v\<rparr>) txs"
  by (induction txs arbitrary: emitter) (simp_all add: trigger_tx_publishes)

lemma triggerEvent_publishes:
  "triggerEvent env block emitter
     = emitter @ map (\<lambda>v. \<lparr>Topic = tx_topic v, Data = jsonTx env v\<rparr>) (transactions block)
       @ [\<lparr>Topic = TopicLinkBlock, Data = jsonBlock env block\<rparr>]"
  by (simp add: triggerEvent_def Let_def Trigger_def foldl_trigger_tx)

lemmas core_defs3 = core_defs2 demo_sealed_def demo_received_def VerifyExecution_def execute_def
  verifyState_def triggerEvent_def trigger_tx_def tx_topic_def Trigger_def FetchEvents_def
  TopicDeploySmartContract_def TopicLinkBlock_def string_of_bytes_of_string

lemma VerifyExecution_publishes:
  "VerifyExecution env block parent p emitter = (Returned None, block2, p1, published) \<Longrightarrow>
   published = emitter @ map (\<lambda>v. \<lparr>Topic = tx_topic v, Data = jsonTx env v\<rparr>) (transactions block2)
       @ [\<lparr>Topic = TopicLinkBlock, Data = jsonBlock env block2\<rparr>]"
  by (auto simp: VerifyExecution_def Let_def triggerEvent_publishes
           split: option.splits prod.splits status.splits)

text \<open>
  C5: the claim is that after a successful VerifyExecution each event recorded under a
  transaction's hash is published through Trigger when FetchEvents succeeds. Evaluated on
  demo_received, whose deploy transaction records one event: VerifyExecution succeeds,
  FetchEvents on the committed block returns that event without error, and the emitter
  received the transaction's topic event and the link-block event only.
\<close>

theorem triggerEvent_omits_recorded_events:
  "fst (VerifyExecution demo_env demo_received demo_parent [] []) = Returned None
   \<and> FetchEvents demo_env (fst (snd (VerifyExecution demo_env demo_received demo_parent [] [])))
         (txHash demo_deploy)
       = ([\<lparr>Topic = ''deployed'', Data = []\<rparr>], None)
   \<and> snd (snd (snd (VerifyExecution demo_env demo_received demo_parent [] [])))
       = [\<lparr>Topic = TopicDeploySmartContract, Data = ''tx''\<rparr>,
          \<lparr>Topic = TopicLinkBlock, Data = ''block''\<rparr>]
   \<and> \<lparr>Topic = ''deployed'', Data = []\<rparr>
       \<notin> set (snd (snd (snd (VerifyExecution demo_env demo_received demo_parent [] []))))"
proof -
  have v1: "fst (VerifyExecution demo_env demo_received demo_parent [] []) = Returned None"
    by (simp add: core_defs3)
  have v2: "snd (snd (snd (VerifyExecution demo_env demo_received demo_parent [] [])))
       = [\<lparr>Topic = TopicDeploySmartContract, Data = ''tx''\<rparr>,
          \<lparr>Topic = TopicLinkBlock, Data = ''block''\<rparr>]"
    by (simp add: core_defs3)
  have v3: "FetchEvents demo_env (fst (snd (VerifyExecution demo_env demo_received demo_parent [] [])))
         (txHash demo_deploy)
       = ([\<lparr>Topic = ''deployed'', Data = []\<rparr>], None)"
    by (simp add: core_defs3)
  have v4: "\<lparr>Topic = ''deployed'', Data = []\<rparr>
       \<notin> set (snd (snd (snd (VerifyExecution demo_env demo_received demo_parent [] []))))"
    by (simp only: v2) (simp add: TopicDeploySmartContract_def TopicLinkBlock_def)
  from v1 v2 v3 v4 show ?thesis by blast
qed

section \<open>The wire frame\<close>

lemma ChecksumIEEE_check_values:
  "ChecksumIEEE [] = 0" and "ChecksumIEEE [0x61] = 0xE8B7BE43"
  by (simp add: ChecksumIEEE_def) code_simp

lemma be32_split:
  "be32 (ucast (drop_bit 24 w)) (ucast (drop_bit 16 w)) (ucast (drop_bit 8 w)) (ucast w) = w"
proof (rule bit_word_eqI)
  fix n assume n: "n < LENGTH(32)"
  consider "n < 8" | "8 \<le> n" "n < 16" | "16 \<le> n" "n < 24" | "24 \<le> n" "n < 32"
    using n by fastforce
  then show "bit (be32 (ucast (drop_bit 24 w)) (ucast (drop_bit 16 w)) (ucast (drop_bit 8 w)) (ucast w)) n
               = bit w n"
    by cases (auto simp: be32_def bit_simps)
qed

lemma Uint32_FromUint32: "Uint32 (FromUint32 w) = Some w"
  by (simp add: FromUint32_def be32_split)

lemma xor_cancel_left: "(c::'a::len word) XOR a = c XOR b \<Longrightarrow> a = b"
  by (metis bit.xor_left_self)

lemma not_bit_32: "\<not> bit (s :: 32 word) 32"
  by (auto dest: bit_imp_le_length)

lemma ucast_byte_inj: "(ucast (a::byte) :: 32 word) = ucast b \<Longrightarrow> a = b"
proof (rule bit_word_eqI)
  fix n assume e: "(ucast a :: 32 word) = ucast b" and n: "n < LENGTH(8)"
  have "bit (ucast a :: 32 word) n = bit (ucast b :: 32 word) n" using e by simp
  then show "bit a n = bit b n" using n by (simp add: bit_simps)
qed

lemma crc_bit_top: "bit (crc_bit s) 31 = bit s 0"
  by (simp add: crc_bit_def bit_simps not_bit_32)

lemma drop_bit_1_eq:
  "bit s 0 = bit t 0 \<Longrightarrow> drop_bit 1 s = drop_bit 1 t \<Longrightarrow> s = (t :: 32 word)"
proof (rule bit_word_eqI)
  fix n assume a: "bit s 0 = bit t 0" "drop_bit 1 s = drop_bit 1 t" "n < LENGTH(32)"
  show "bit s n = bit t n"
  proof (cases n)
    case 0 then show ?thesis using a by simp
  next
    case (Suc m)
    have "bit (drop_bit 1 s) m = bit (drop_bit 1 t) m" using a by simp
    then show ?thesis using Suc by (simp add: bit_simps)
  qed
qed

lemma crc_bit_inj: "crc_bit s = crc_bit t \<Longrightarrow> s = t"
proof -
  assume e: "crc_bit s = crc_bit t"
  then have b: "bit s 0 = bit t 0" using crc_bit_top by metis
  have "drop_bit 1 s = drop_bit 1 t"
  proof (cases "bit t 0")
    case True
    with e b have "drop_bit 1 s XOR 0xEDB88320 = drop_bit 1 t XOR 0xEDB88320"
      by (simp add: crc_bit_def)
    then show ?thesis by (metis bit.xor_left_self xor.commute)
  next
    case False
    with e b show ?thesis by (simp add: crc_bit_def)
  qed
  with b show ?thesis by (rule drop_bit_1_eq)
qed

lemma crc_bit_pow_inj: "(crc_bit ^^ n) s = (crc_bit ^^ n) t \<Longrightarrow> s = t"
  by (induction n) (auto dest: crc_bit_inj)

lemma crc_byte_inj_state: "crc_byte s b = crc_byte t b \<Longrightarrow> s = t"
  unfolding crc_byte_def by (drule crc_bit_pow_inj) (metis bit.xor_left_self xor.commute)

lemma crc_byte_inj_byte: "crc_byte s a = crc_byte s b \<Longrightarrow> a = b"
  unfolding crc_byte_def by (drule crc_bit_pow_inj) (blast dest: xor_cancel_left ucast_byte_inj)

lemma foldl_crc_byte_inj: "foldl crc_byte s bs = foldl crc_byte t bs \<Longrightarrow> s = t"
  by (induction bs arbitrary: s t) (auto dest: crc_byte_inj_state)

lemma ChecksumIEEE_single_byte:
  "a \<noteq> b \<Longrightarrow> ChecksumIEEE (xs @ a # ys) \<noteq> ChecksumIEEE (xs @ b # ys)"
  unfolding ChecksumIEEE_def
  by (auto dest!: foldl_crc_byte_inj crc_byte_inj_byte)

lemma ChecksumIEEE_update:
  "i < length d \<Longrightarrow> b \<noteq> d ! i \<Longrightarrow> ChecksumIEEE (d[i := b]) \<noteq> ChecksumIEEE d"
  using ChecksumIEEE_single_byte [of b "d ! i" "take i d" "drop (Suc i) d"]
  by (simp add: upd_conv_take_nth_drop id_take_nth_drop [symmetric])


lemma zero_notin_bytes_of_string: "CHR 0x00 \<notin> set name \<Longrightarrow> 0 \<notin> set (bytes_of_string name)"
  by (auto simp: bytes_of_string_def of_char_zero)

lemma length_bytes_of_string: "length (bytes_of_string name) = length name"
  by (simp add: bytes_of_string_def)

lemma bytes_of_string_append: "bytes_of_string (a @ b) = bytes_of_string a @ bytes_of_string b"
  by (simp add: bytes_of_string_def)

lemma length_name_field: "length (name_field name) = 12"
  by (simp add: name_field_def length_bytes_of_string)

lemma copy_at_mid:
  "length a = off \<Longrightarrow> length src \<le> length b \<Longrightarrow>
   copy_at (a @ b) off src = a @ src @ drop (length src) b"
  by (simp add: copy_at_def Let_def min_def)

lemma copy_at_name:
  "length a = 12 \<Longrightarrow>
   copy_at (a @ replicate 20 0) 12 nb = a @ take 20 nb @ replicate (20 - length nb) 0"
  by (simp add: copy_at_def Let_def min_def)

lemma name_field_alt:
  "take 12 (take 20 (bytes_of_string name) @ replicate (20 - length name) 0) = name_field name"
  by (cases "length name \<le> 12") (simp_all add: name_field_def length_bytes_of_string)

lemma buildHeader_layout:
  "buildHeader chain name ver dataLen dataCrc [0]
     = MagicNumber @ FromUint32 chain @ [0, 0, 0, ver] @ name_field name
       @ FromUint32 dataLen @ FromUint32 dataCrc"
proof -
  let ?nb = "bytes_of_string name"
  let ?P = "MagicNumber @ FromUint32 chain @ [0, 0, 0, ver]"
  define X where "X = take 20 ?nb @ replicate (20 - length ?nb) 0"
  have l: "length ?nb = length name" by (rule length_bytes_of_string)
  have lP: "length ?P = 12" by (simp add: MagicNumber_def length_FromUint32)
  have lX: "length X = 20" by (simp add: X_def)
  have nf: "take 12 X = name_field name"
    unfolding X_def l by (rule name_field_alt)
  have sx: "X = name_field name @ drop 12 X"
    using append_take_drop_id [of 12 X] by (simp add: nf)
  have h1: "copy_at (replicate 32 0) 0 MagicNumber = MagicNumber @ replicate 28 0"
    using copy_at_mid [of "[]" 0 MagicNumber "replicate 32 0"] by (simp add: MagicNumber_def)
  have h2: "copy_at (MagicNumber @ replicate 28 0) 4 (FromUint32 chain)
              = MagicNumber @ FromUint32 chain @ replicate 24 0"
    using copy_at_mid [of MagicNumber 4 "FromUint32 chain" "replicate 28 0"]
    by (simp add: MagicNumber_def length_FromUint32)
  have h3: "copy_at (MagicNumber @ FromUint32 chain @ replicate 24 0) 8 [0]
              = MagicNumber @ FromUint32 chain @ [0, 0, 0] @ replicate 21 0"
    using copy_at_mid [of "MagicNumber @ FromUint32 chain" 8 "[0]" "replicate 24 0"]
    by (simp add: MagicNumber_def length_FromUint32 numeral_eq_Suc)
  have h4: "copy_at (MagicNumber @ FromUint32 chain @ [0, 0, 0] @ replicate 21 0) 11 [ver]
              = MagicNumber @ FromUint32 chain @ [0, 0, 0, ver] @ replicate 20 0"
    using copy_at_mid [of "MagicNumber @ FromUint32 chain @ [0, 0, 0]" 11 "[ver]" "replicate 21 0"]
    by (simp add: MagicNumber_def length_FromUint32)
  have h5: "copy_at (MagicNumber @ FromUint32 chain @ [0, 0, 0, ver] @ replicate 20 0) 12 ?nb
              = MagicNumber @ FromUint32 chain @ [0, 0, 0, ver] @ X"
    using copy_at_name [of ?P ?nb] lP by (simp add: X_def)
  have h6: "copy_at (MagicNumber @ FromUint32 chain @ [0, 0, 0, ver] @ X) 24 (FromUint32 dataLen)
              = MagicNumber @ FromUint32 chain @ [0, 0, 0, ver] @ name_field name
                  @ FromUint32 dataLen @ drop 16 X"
  proof -
    have "copy_at ((?P @ name_field name) @ drop 12 X) 24 (FromUint32 dataLen)
            = (?P @ name_field name) @ FromUint32 dataLen @ drop (length (FromUint32 dataLen)) (drop 12 X)"
      by (rule copy_at_mid) (simp_all add: MagicNumber_def length_name_field length_FromUint32 lX)
    then have "copy_at (?P @ name_field name @ drop 12 X) 24 (FromUint32 dataLen)
            = ?P @ name_field name @ FromUint32 dataLen @ drop 16 X"
      by (simp add: length_FromUint32)
    then show ?thesis using sx by simp
  qed
  have h7: "copy_at (MagicNumber @ FromUint32 chain @ [0, 0, 0, ver] @ name_field name
                  @ FromUint32 dataLen @ drop 16 X) 28 (FromUint32 dataCrc)
              = MagicNumber @ FromUint32 chain @ [0, 0, 0, ver] @ name_field name
                  @ FromUint32 dataLen @ FromUint32 dataCrc"
    using copy_at_mid [of "?P @ name_field name @ FromUint32 dataLen" 28 "FromUint32 dataCrc" "drop 16 X"]
    by (simp add: MagicNumber_def length_FromUint32 length_name_field lX)
  show ?thesis
    unfolding buildHeader_def Let_def offsetFour_def offsetEight_def offsetEleven_def offsetTwelve_def
      offsetTwentyFour_def offsetTwentyEight_def offsetThirtyTwo_def
    by (simp only: h1 h2 h3 h4 h5 h6 h7)
qed

lemma name_field_short:
  "length name \<le> 12 \<Longrightarrow> name_field name = bytes_of_string name @ replicate (12 - length name) 0"
  by (simp add: name_field_def length_bytes_of_string)

lemma parse_name_field:
  assumes "length name \<le> 12" "CHR 0x00 \<notin> set name"
  shows "parse_name (name_field name) = name"
proof -
  let ?nb = "bytes_of_string name"
  have z: "0 \<notin> set ?nb" using assms(2) by (rule zero_notin_bytes_of_string)
  have l: "length ?nb = length name" by (rule length_bytes_of_string)
  have f: "name_field name = ?nb @ replicate (12 - length name) 0"
    using assms(1) by (rule name_field_short)
  show ?thesis
  proof (cases "length name = 12")
    case True
    then have "name_field name = ?nb" by (simp add: f)
    then show ?thesis using z
      by (simp add: parse_name_def IndexByte_def Let_def string_of_bytes_of_string)
  next
    case False
    then have k: "0 < 12 - length name" using assms(1) by simp
    then have m: "(0 :: byte) \<in> set (name_field name)" by (simp add: f)
    have "takeWhile (\<lambda>b. b \<noteq> 0) (name_field name) = ?nb"
      using z k by (cases "12 - length name") (auto simp: f takeWhile_append)
    then have "IndexByte (name_field name) 0 = int (length name)"
      using m by (simp add: IndexByte_def l)
    then show ?thesis
      by (simp add: parse_name_def Let_def slice_def f l string_of_bytes_of_string)
  qed
qed

lemma parse_name_field_long:
  assumes "length pre = 12" "CHR 0x00 \<notin> set pre"
  shows "parse_name (name_field (pre @ post)) = pre"
proof -
  have "name_field (pre @ post) = bytes_of_string pre"
    using assms(1) by (simp add: name_field_def bytes_of_string_append length_bytes_of_string)
  moreover have "0 \<notin> set (bytes_of_string pre)"
    using assms(2) by (rule zero_notin_bytes_of_string)
  ultimately show ?thesis
    by (simp add: parse_name_def IndexByte_def Let_def string_of_bytes_of_string)
qed

lemma parse_name_field_nul:
  assumes "length (pre @ CHR 0x00 # post) \<le> 12" "CHR 0x00 \<notin> set pre"
  shows "parse_name (name_field (pre @ CHR 0x00 # post)) = pre"
proof -
  let ?rest = "bytes_of_string post @ replicate (12 - length (pre @ CHR 0x00 # post)) 0"
  have f: "name_field (pre @ CHR 0x00 # post) = bytes_of_string pre @ 0 # ?rest"
    using name_field_short [OF assms(1)]
    by (simp add: bytes_of_string_append) (simp add: bytes_of_string_def)
  have z: "0 \<notin> set (bytes_of_string pre)"
    using assms(2) by (rule zero_notin_bytes_of_string)
  have "takeWhile (\<lambda>b. b \<noteq> 0) (bytes_of_string pre @ 0 # ?rest) = bytes_of_string pre"
    using z by (simp add: takeWhile_append)
  then have "IndexByte (name_field (pre @ CHR 0x00 # post)) 0 = int (length pre)"
    by (simp add: IndexByte_def f length_bytes_of_string)
  then show ?thesis
    by (simp add: parse_name_def Let_def slice_def f length_bytes_of_string string_of_bytes_of_string)
qed

lemma header_slices:
  assumes "length m = 4" "length c = 4" "length r = 3" "length nm = 12"
    "length l = 4" "length k = 4" "length h = 4"
  shows "slice (m @ c @ r @ v # nm @ l @ k @ h) 0 4 = m"
    and "slice (m @ c @ r @ v # nm @ l @ k @ h) 4 8 = c"
    and "slice (m @ c @ r @ v # nm @ l @ k @ h) 8 11 = r"
    and "(m @ c @ r @ v # nm @ l @ k @ h) ! 11 = v"
    and "slice (m @ c @ r @ v # nm @ l @ k @ h) 12 24 = nm"
    and "slice (m @ c @ r @ v # nm @ l @ k @ h) 24 28 = l"
    and "slice (m @ c @ r @ v # nm @ l @ k @ h) 28 32 = k"
    and "slice (m @ c @ r @ v # nm @ l @ k @ h) 32 36 = h"
    and "slice (m @ c @ r @ v # nm @ l @ k @ h) 0 32 = m @ c @ r @ v # nm @ l @ k"
  using assms by (simp_all add: slice_def nth_append)

lemma length_buildHeader: "length (buildHeader chain name ver dataLen dataCrc [0]) = 32"
  by (simp add: buildHeader_layout MagicNumber_def length_FromUint32 length_name_field)

lemma buildData_split:
  "buildData ns d name =
     buildHeader (ConfigChainID (config (node ns))) name (version (node ns))
        (of_nat (length d)) (ChecksumIEEE d) [0]
     @ FromUint32 (ChecksumIEEE (buildHeader (ConfigChainID (config (node ns))) name (version (node ns))
        (of_nat (length d)) (ChecksumIEEE d) [0]))
     @ d"
  by (simp add: buildData_def Let_def)

lemma take_36_buildData:
  "take 36 (buildData ns d name) =
     buildHeader (ConfigChainID (config (node ns))) name (version (node ns))
        (of_nat (length d)) (ChecksumIEEE d) [0]
     @ FromUint32 (ChecksumIEEE (buildHeader (ConfigChainID (config (node ns))) name (version (node ns))
        (of_nat (length d)) (ChecksumIEEE d) [0]))"
  by (simp add: buildData_split length_buildHeader length_FromUint32)

lemma buildData_take: "buildData ns d name = take 36 (buildData ns d name) @ d"
  by (simp add: take_36_buildData) (simp add: buildData_split)

lemma length_take_36: "length (take 36 (buildData ns d name)) = 36"
  by (simp add: take_36_buildData length_buildHeader length_FromUint32)

lemma parse_frame:
  "parse ns \<lparr>inbound = take 36 (buildData ns d name) @ tail, outbound = ob, closed = cl\<rparr>
   = (case ReadBytes \<lparr>inbound = tail, outbound = ob, closed = cl\<rparr> (of_nat (length d)) of
        (Inl err, s2) \<Rightarrow> (Inl err, s2)
      | (Inr d', s2) \<Rightarrow>
          (if ChecksumIEEE d' \<noteq> ChecksumIEEE d then (Inl ErrDataChecksum, s2)
           else (Inr ((frame_protocol ns d name)\<lparr>data := d'\<rparr>), s2)))"
proof -
  define chain where "chain = ConfigChainID (config (node ns))"
  define ver where "ver = version (node ns)"
  define L where "L = FromUint32 (of_nat (length d))"
  define K where "K = FromUint32 (ChecksumIEEE d)"
  define H where "H = buildHeader chain name ver (of_nat (length d)) (ChecksumIEEE d) [0]"
  define HC where "HC = FromUint32 (ChecksumIEEE H)"
  define nm where "nm = parse_name (name_field name)"
  have lay: "H = MagicNumber @ FromUint32 chain @ [0, 0, 0] @ ver # name_field name @ L @ K"
    unfolding H_def L_def K_def using buildHeader_layout [of chain name ver] by simp
  have t: "take 36 (buildData ns d name) = H @ HC"
    unfolding H_def HC_def chain_def ver_def by (rule take_36_buildData)
  have lens: "length MagicNumber = 4" "length (FromUint32 chain) = 4" "length [0::byte, 0, 0] = 3"
    "length (name_field name) = 12" "length L = 4" "length K = 4" "length HC = 4"
    by (simp_all add: MagicNumber_def length_FromUint32 length_name_field L_def K_def HC_def)
  have e: "H @ HC = MagicNumber @ FromUint32 chain @ [0, 0, 0] @ ver # name_field name @ L @ K @ HC"
    by (simp add: lay)
  note sl = header_slices [OF lens, of ver, folded e, folded lay]
  have hl: "length (H @ HC) = 36"
    by (simp add: lay lens)
  have rb: "ReadBytes \<lparr>inbound = H @ HC @ tail, outbound = ob, closed = cl\<rparr> (of_nat offsetThirtySix)
              = (Inr (H @ HC), \<lparr>inbound = tail, outbound = ob, closed = cl\<rparr>)"
    using hl by (simp add: ReadBytes_def offsetThirtySix_def)
  have u: "Uint32 (FromUint32 chain) = Some chain" "Uint32 HC = Some (ChecksumIEEE H)"
    "Uint32 L = Some (of_nat (length d))" "Uint32 K = Some (ChecksumIEEE d)"
    by (simp_all add: Uint32_FromUint32 HC_def L_def K_def)
  have vh: "verifyHeader ns
     \<lparr>magicNumber = MagicNumber, protoChainID = FromUint32 chain, protoVersion = ver,
      msgName = nm, dataLength = L, dataChecksum = K, headerChecksum = HC, dataHeader = H,
      data = [], reserved = [0, 0, 0]\<rparr> = Some True"
    by (simp add: verifyHeader_def u Uint32_FromUint32 chain_def ver_def)
  have p: "parse ns \<lparr>inbound = H @ HC @ tail, outbound = ob, closed = cl\<rparr>
     = (case ReadBytes \<lparr>inbound = tail, outbound = ob, closed = cl\<rparr> (of_nat (length d)) of
        (Inl err, s2) \<Rightarrow> (Inl err, s2)
      | (Inr d', s2) \<Rightarrow>
          (if ChecksumIEEE d' \<noteq> ChecksumIEEE d then (Inl ErrDataChecksum, s2)
           else (Inr \<lparr>magicNumber = MagicNumber, protoChainID = FromUint32 chain, protoVersion = ver,
      msgName = nm, dataLength = L, dataChecksum = K, headerChecksum = HC, dataHeader = H,
      data = d', reserved = [0, 0, 0]\<rparr>, s2)))"
    unfolding parse_def rb
    by (simp add: Let_def sl offsetFour_def offsetEight_def offsetEleven_def offsetTwelve_def
      offsetTwentyFour_def offsetTwentyEight_def offsetThirtyTwo_def offsetThirtySix_def
      nm_def [symmetric] vh u split: prod.splits sum.splits)
  have f: "frame_protocol ns d name = \<lparr>magicNumber = MagicNumber, protoChainID = FromUint32 chain,
      protoVersion = ver, msgName = nm, dataLength = L, dataChecksum = K, headerChecksum = HC,
      dataHeader = H, data = d, reserved = [0, 0, 0]\<rparr>"
    by (simp add: frame_protocol_def Let_def H_def HC_def L_def K_def chain_def ver_def nm_def)
  show ?thesis
    unfolding t f using p by (simp split: prod.splits sum.splits)
qed

lemma unat_of_nat_len: "n < 2 ^ 32 \<Longrightarrow> unat (of_nat n :: 32 word) = n"
  by (simp add: unat_of_nat)

lemma ReadBytes_exact:
  "length d < 2 ^ 32 \<Longrightarrow>
   ReadBytes \<lparr>inbound = d @ rest, outbound = ob, closed = cl\<rparr> (of_nat (length d))
     = (Inr d, \<lparr>inbound = rest, outbound = ob, closed = cl\<rparr>)"
  by (simp add: ReadBytes_def unat_of_nat_len)

text \<open>
  byteutils.Uint32 panics on a slice of fewer than four bytes. parse only hands it slices
  of the 36 header bytes that ReadBytes returned, each four bytes long, so parse never
  panics: every failure of parse is one of its returned errors.
\<close>

lemma Uint32_defined: "4 \<le> length bs \<Longrightarrow> Uint32 bs \<noteq> None"
  by (cases bs rule: Uint32.cases) auto

lemma ReadBytes_length: "ReadBytes s n = (Inr bs, s1) \<Longrightarrow> length bs = unat n"
  by (auto simp: ReadBytes_def split: if_splits)

lemma parse_never_panics: "fst (parse ns s) \<noteq> Inl (NetPanic m)"
proof (cases "ReadBytes s (of_nat offsetThirtySix)")
  case (Pair r s1)
  show ?thesis
  proof (cases r)
    case (Inl e)
    then have "e = ErrRead" using Pair by (auto simp: ReadBytes_def split: if_splits)
    with Inl Pair show ?thesis by (simp add: parse_def)
  next
    case (Inr hdr)
    then have l: "length hdr = 36"
      using Pair ReadBytes_length [of s "of_nat offsetThirtySix" hdr s1]
      by (simp add: offsetThirtySix_def)
    have u: "Uint32 (slice hdr offsetFour offsetEight) \<noteq> None"
      "Uint32 (slice hdr offsetThirtyTwo offsetThirtySix) \<noteq> None"
      "Uint32 (slice hdr offsetTwentyFour offsetTwentyEight) \<noteq> None"
      "Uint32 (slice hdr offsetTwentyEight offsetThirtyTwo) \<noteq> None"
      using l by (simp_all add: Uint32_defined slice_def offsetFour_def offsetEight_def
          offsetThirtyTwo_def offsetThirtySix_def offsetTwentyFour_def offsetTwentyEight_def)
    show ?thesis
      using Pair Inr u
      by (auto simp: parse_def Let_def verifyHeader_def ReadBytes_def
            split: option.splits bool.splits prod.splits sum.splits if_splits)
  qed
qed

text \<open>
  C6, amended: for every payload of fewer than 2^32 bytes and every message name of at most
  twelve bytes none of which is NUL, the frame built by buildData, followed by anything,
  parses on the same service to its name and payload, leaving what follows on the stream;
  the header carries the CRC-32 of the payload and of its first 32 bytes, big-endian; and
  replacing any one payload byte of the frame by a different byte makes parse fail with
  the data-checksum error.
\<close>

theorem frame_roundtrip_and_tamper:
  assumes "length d < 2 ^ 32" "length name \<le> 12" "CHR 0x00 \<notin> set name"
  shows "parse ns \<lparr>inbound = buildData ns d name @ rest, outbound = ob, closed = cl\<rparr>
           = (Inr (frame_protocol ns d name), \<lparr>inbound = rest, outbound = ob, closed = cl\<rparr>)
         \<and> msgName (frame_protocol ns d name) = name
         \<and> data (frame_protocol ns d name) = d
         \<and> Uint32 (dataChecksum (frame_protocol ns d name)) = Some (ChecksumIEEE d)
         \<and> be_value (dataChecksum (frame_protocol ns d name)) = unat (ChecksumIEEE d)
         \<and> be_value (headerChecksum (frame_protocol ns d name))
             = unat (ChecksumIEEE (dataHeader (frame_protocol ns d name)))
         \<and> (i < length d \<and> b \<noteq> d ! i \<longrightarrow>
              fst (parse ns \<lparr>inbound = (buildData ns d name)[36 + i := b] @ rest,
                             outbound = ob, closed = cl\<rparr>) = Inl ErrDataChecksum)"
proof -
  have fp: "(frame_protocol ns d name)\<lparr>data := d\<rparr> = frame_protocol ns d name"
    by (simp add: frame_protocol_def Let_def)
  have pf: "parse ns \<lparr>inbound = take 36 (buildData ns d name) @ d @ rest, outbound = ob, closed = cl\<rparr>
           = (Inr (frame_protocol ns d name), \<lparr>inbound = rest, outbound = ob, closed = cl\<rparr>)"
    using parse_frame [of ns d name "d @ rest" ob cl] ReadBytes_exact [OF assms(1), of rest ob cl]
    by (simp add: fp)
  have bd: "buildData ns d name @ rest = take 36 (buildData ns d name) @ d @ rest"
    using buildData_take [of ns d name] by (metis append_assoc)
  have a: "parse ns \<lparr>inbound = buildData ns d name @ rest, outbound = ob, closed = cl\<rparr>
           = (Inr (frame_protocol ns d name), \<lparr>inbound = rest, outbound = ob, closed = cl\<rparr>)"
    by (subst bd) (rule pf)
  have c: "fst (parse ns \<lparr>inbound = (buildData ns d name)[36 + i := b] @ rest,
                             outbound = ob, closed = cl\<rparr>) = Inl ErrDataChecksum"
    if "i < length d" "b \<noteq> d ! i"
  proof -
    have u: "(buildData ns d name)[36 + i := b] = take 36 (buildData ns d name) @ d[i := b]"
      using buildData_take [of ns d name] length_take_36 [of ns d name]
      by (metis add_diff_cancel_left' list_update_append not_add_less1)
    have l: "length (d[i := b]) < 2 ^ 32" using assms(1) by simp
    have r: "ReadBytes \<lparr>inbound = d[i := b] @ rest, outbound = ob, closed = cl\<rparr> (of_nat (length d))
               = (Inr (d[i := b]), \<lparr>inbound = rest, outbound = ob, closed = cl\<rparr>)"
      using ReadBytes_exact [OF l, of rest ob cl] by simp
    show ?thesis
      using parse_frame [of ns d name "d[i := b] @ rest" ob cl] r
        ChecksumIEEE_update [OF that]
      by (simp add: u)
  qed
  have n: "msgName (frame_protocol ns d name) = name"
    by (simp add: frame_protocol_def Let_def parse_name_field [OF assms(2,3)])
  from a c n show ?thesis
    by (simp add: frame_protocol_def Let_def Uint32_FromUint32 be_value_FromUint32)
qed

theorem frame_roundtrip_and_tamper_witness:
  "length [1, 2, 3 :: byte] < 2 ^ 32 \<and> length HELLO \<le> 12 \<and> CHR 0x00 \<notin> set HELLO
   \<and> parse demo_ns \<lparr>inbound = buildData demo_ns [1, 2, 3] HELLO @ [9], outbound = [], closed = False\<rparr>
       = (Inr (frame_protocol demo_ns [1, 2, 3] HELLO), \<lparr>inbound = [9], outbound = [], closed = False\<rparr>)
   \<and> msgName (frame_protocol demo_ns [1, 2, 3] HELLO) = HELLO
   \<and> data (frame_protocol demo_ns [1, 2, 3] HELLO) = [1, 2, 3]
   \<and> (1 :: nat) < length [1, 2, 3 :: byte] \<and> (0xFF :: byte) \<noteq> [1, 2, 3] ! 1
   \<and> fst (parse demo_ns \<lparr>inbound = (buildData demo_ns [1, 2, 3] HELLO)[36 + 1 := 0xFF] @ [9],
                          outbound = [], closed = False\<rparr>) = Inl ErrDataChecksum"
proof -
  have h1: "length [1, 2, 3 :: byte] < 2 ^ 32" by simp
  have h2: "length HELLO \<le> 12" by (simp add: HELLO_def)
  have h3: "CHR 0x00 \<notin> set HELLO" by (simp add: HELLO_def)
  have h4: "(1 :: nat) < length [1, 2, 3 :: byte] \<and> (0xFF :: byte) \<noteq> [1, 2, 3] ! 1" by simp
  note t = frame_roundtrip_and_tamper [OF h1 h2 h3, of demo_ns "[9]" "[]" False 1 "0xFF"]
  note t5 = t [THEN conjunct2, THEN conjunct2, THEN conjunct2, THEN conjunct2, THEN conjunct2,
               THEN conjunct2, rule_format, OF h4]
  from h1 h2 h3 h4 t t5 show ?thesis by blast
qed

lemma huge_payload_length: "length huge_payload = 2 ^ 32"
  by (simp add: huge_payload_def)

lemma parsed_huge:
  "parsed (parse ns \<lparr>inbound = buildData ns huge_payload name, outbound = ob, closed = cl\<rparr>)
     \<noteq> Some (name, huge_payload)"
proof -
  have z: "(of_nat (length huge_payload) :: 32 word) = 0"
    by (simp add: huge_payload_length)
  have r: "ReadBytes \<lparr>inbound = huge_payload, outbound = ob, closed = cl\<rparr> (of_nat (length huge_payload))
             = (Inr [], \<lparr>inbound = huge_payload, outbound = ob, closed = cl\<rparr>)"
    unfolding z by (simp add: ReadBytes_def)
  have ne: "huge_payload \<noteq> []"
    using huge_payload_length by (metis length_0_conv power_not_zero zero_neq_numeral)
  have "parsed (parse ns \<lparr>inbound = take 36 (buildData ns huge_payload name) @ huge_payload,
                          outbound = ob, closed = cl\<rparr>) \<noteq> Some (name, huge_payload)"
    using ne by (simp add: parse_frame r parsed_def)
  then show ?thesis
    using buildData_take [of ns huge_payload name] by simp
qed

lemma parsed_empty:
  "parsed (parse ns \<lparr>inbound = buildData ns [] name, outbound = ob, closed = cl\<rparr>)
     = Some (parse_name (name_field name), [])"
proof -
  have r: "ReadBytes \<lparr>inbound = [], outbound = ob, closed = cl\<rparr> (of_nat (length ([] :: bytes)))
             = (Inr [], \<lparr>inbound = [], outbound = ob, closed = cl\<rparr>)"
    by (simp add: ReadBytes_def)
  have "parsed (parse ns \<lparr>inbound = take 36 (buildData ns [] name) @ [],
                          outbound = ob, closed = cl\<rparr>) = Some (parse_name (name_field name), [])"
    unfolding parse_frame r by (simp add: parsed_def frame_protocol_def Let_def)
  then show ?thesis
    using buildData_take [of ns "[]" name] by simp
qed

text \<open>
  The claim as stated, for every payload and name, fails on three frames of buildData: a
  name of thirteen bytes comes back cut to twelve, a name with a NUL byte comes back cut at
  the NUL, and a payload of 2^32 bytes, whose length is written as 0, does not come back.
\<close>

theorem frame_name_or_length_not_recovered:
  "parsed (parse demo_ns \<lparr>inbound = buildData demo_ns [] ''abcdefghijklm'', outbound = [], closed = False\<rparr>)
     = Some (''abcdefghijkl'', [])
   \<and> parsed (parse demo_ns \<lparr>inbound = buildData demo_ns [] [CHR ''a'', CHR 0x00, CHR ''b''],
                             outbound = [], closed = False\<rparr>)
     = Some (''a'', [])
   \<and> parsed (parse demo_ns \<lparr>inbound = buildData demo_ns huge_payload ''ok'', outbound = [], closed = False\<rparr>)
     \<noteq> Some (''ok'', huge_payload)"
proof -
  have a: "parse_name (name_field ''abcdefghijklm'') = ''abcdefghijkl''"
    using parse_name_field_long [of "''abcdefghijkl''" "''m''"] by simp
  have b: "parse_name (name_field [CHR ''a'', CHR 0x00, CHR ''b'']) = ''a''"
    using parse_name_field_nul [of "''a''" "''b''"] by simp
  show ?thesis
    by (simp only: parsed_empty a b parsed_huge simp_thms)
qed

end
